theory Spec2Isabelle
  imports Complex_Main "HOL-Library.AList"
begin

section \<open>Heart-disease prediction: preprocessing, training, selection and serving\<close>

text \<open>
  A shallow embedding of the Python repository: the preprocessing pipeline
  (\<^verbatim>\<open>src/data/preprocessing.py\<close>), the model trainer (\<^verbatim>\<open>src/models/train.py\<close>),
  the training script (\<^verbatim>\<open>scripts/train_model.py\<close>) and the prediction endpoint
  (\<^verbatim>\<open>api/app.py\<close>).

  Floating-point numbers are modelled as reals, and a missing value (NaN) as \<open>None\<close>.
  The values of a metrics dictionary are floats that can be NaN, because a
  cross-validation score can be; infinities and rounding are not modelled.
  Every exception of the source is a value of the type \<open>error\<close>; a function that can
  raise returns \<open>error + 'a\<close> with \<open>Inl\<close> the exception. Logging, printing, plotting, the
  MLflow tracking calls and the Prometheus counters have no influence on any returned
  value and are left out.
\<close>

subsection \<open>Exceptions\<close>

text \<open>
  The exceptions carry the names the specification gives them; the comment says which
  Python exception each one is in the source.
\<close>

datatype error =
    SchemaError               \<comment> \<open>ValueError of ColumnTransformer: a configured column is absent\<close>
  | NotFittedError            \<comment> \<open>sklearn's NotFittedError: transform before fit\<close>
  | EmptyInputError           \<comment> \<open>ValueError of check\_array: a frame with no rows\<close>
  | ShapeError                \<comment> \<open>ValueError of pd.DataFrame: data and column names differ in width\<close>
  | LengthMismatchError       \<comment> \<open>ValueError of sklearn.metrics: inconsistent numbers of samples\<close>
  | DegenerateLabelsError     \<comment> \<open>ValueError of roc\_auc\_score: only one class in y\_true\<close>
  | ModelTrainingFailure      \<comment> \<open>any exception raised while a candidate model is trained\<close>
  | NoModelsTrainedError      \<comment> \<open>ValueError of max() on an empty sequence\<close>
  | UnknownMetricError        \<comment> \<open>KeyError of \<open>x[1][metric]\<close>\<close>
  | KeyError                  \<comment> \<open>KeyError of any other dictionary or column lookup\<close>
  | IndexError                \<comment> \<open>IndexError of \<open>[0]\<close> on an empty array\<close>
  | FileNotFoundError         \<comment> \<open>read\_csv or joblib.load on a path that does not exist\<close>
  | AttributeError            \<comment> \<open>a loaded object that does not have the method called\<close>
  | HTTPException nat string  \<comment> \<open>fastapi.HTTPException(status\_code, detail)\<close>

subsection \<open>Data frames\<close>

type_synonym cell = "real option"

text \<open>
  A pandas DataFrame: its column names and its rows, each row holding one cell per
  column. A cell is a number or NaN.
\<close>

record dataframe =
  columns :: "string list"
  rows :: "cell list list"

definition cell_at :: "string list \<Rightarrow> cell list \<Rightarrow> string \<Rightarrow> cell" where
  "cell_at cols r name = (case map_of (zip cols r) name of None \<Rightarrow> None | Some c \<Rightarrow> c)"

text \<open>\<open>df[name]\<close> as a list of cells, for a name among the columns.\<close>

definition column :: "dataframe \<Rightarrow> string \<Rightarrow> cell list" where
  "column df name = map (\<lambda>r. cell_at (columns df) r name) (rows df)"

text \<open>\<open>count\<close> of a row: the number of its cells that are not NaN.\<close>

definition non_missing :: "cell list \<Rightarrow> nat" where
  "non_missing r = length (filter (\<lambda>c. c \<noteq> None) r)"

text \<open>
  \<^verbatim>\<open>clean_data\<close>: \<^verbatim>\<open>threshold = len(df.columns) * 0.5\<close> and
  \<^verbatim>\<open>df.dropna(thresh=threshold)\<close>, which keeps the rows whose count of non-missing
  values is at least the threshold.
\<close>

definition clean_data :: "dataframe \<Rightarrow> dataframe" where
  "clean_data df =
     (let threshold = real (length (columns df)) * 0.5
      in df\<lparr>rows := filter (\<lambda>r. threshold \<le> real (non_missing r)) (rows df)\<rparr>)"

text \<open>
  \<^verbatim>\<open>split_features_target\<close>: \<^verbatim>\<open>df.drop(columns=[target_col])\<close> and
  \<^verbatim>\<open>df[target_col]\<close>; both raise KeyError when the column is absent.
\<close>

definition drop_column :: "string \<Rightarrow> dataframe \<Rightarrow> dataframe" where
  "drop_column name df =
     \<lparr>columns = filter (\<lambda>c. c \<noteq> name) (columns df),
      rows = map (\<lambda>r. map snd (filter (\<lambda>(c, v). c \<noteq> name) (zip (columns df) r))) (rows df)\<rparr>"

definition split_features_target :: "dataframe \<Rightarrow> string \<Rightarrow> error + (dataframe \<times> cell list)" where
  "split_features_target df target_col =
     (if target_col \<in> set (columns df)
      then Inr (drop_column target_col df, column df target_col)
      else Inl KeyError)"

subsection \<open>The scikit-learn transformers the pipeline is built from\<close>

text \<open>The observed (non-missing) values of a column.\<close>

definition observed :: "cell list \<Rightarrow> real list" where
  "observed cs = List.map_filter (\<lambda>c. c) cs"

text \<open>
  \<^verbatim>\<open>SimpleImputer(strategy='median')\<close>: the median of the observed values, the mean of
  the two middle values for an even count.
\<close>

definition median :: "real list \<Rightarrow> real" where
  "median xs =
     (let s = sort xs; n = length s
      in if odd n then s ! (n div 2) else (s ! (n div 2 - 1) + s ! (n div 2)) / 2)"

text \<open>
  \<^verbatim>\<open>SimpleImputer(strategy='most_frequent')\<close>: the most frequent observed value, the
  smallest one when several are equally frequent; \<open>None\<close> (NaN) for no observed value.
\<close>

definition most_frequent :: "real list \<Rightarrow> real option" where
  "most_frequent xs =
     foldl (\<lambda>best v. case best of
                None \<Rightarrow> Some v
              | Some b \<Rightarrow> if count_list xs b < count_list xs v then Some v else Some b)
       None (sort xs)"

text \<open>Filling the missing cells of a column with a learned value.\<close>

definition impute :: "real \<Rightarrow> cell \<Rightarrow> real" where
  "impute fill c = (case c of None \<Rightarrow> fill | Some v \<Rightarrow> v)"

text \<open>
  \<^verbatim>\<open>StandardScaler\<close>: the mean and the population variance of a column;
  the scale is the standard deviation, or 1 for a constant column.
\<close>

definition mean :: "real list \<Rightarrow> real" where
  "mean xs = sum_list xs / real (length xs)"

definition variance :: "real list \<Rightarrow> real" where
  "variance xs = sum_list (map (\<lambda>x. (x - mean xs)\<^sup>2) xs) / real (length xs)"

definition std :: "real list \<Rightarrow> real" where
  "std xs = sqrt (variance xs)"

definition handle_zeros_in_scale :: "real \<Rightarrow> real" where
  "handle_zeros_in_scale s = (if s = 0 then 1 else s)"

subsection \<open>The fitted pipeline state\<close>

text \<open>
  What the numerical pipeline (imputer, then scaler) learns for one feature: the
  median used for imputation, and the mean, standard deviation and scale of the column
  after imputation.
\<close>

record num_params =
  imputer_median :: real
  scaler_mean :: real
  scaler_std :: real
  scaler_scale :: real

text \<open>
  The fitted ColumnTransformer: one entry per numerical feature and one per categorical
  feature, in the order of the feature lists. An entry is \<open>None\<close> when the training
  column had no observed value: the imputer's statistic for it is NaN, and the imputer
  drops such a column from its output.
\<close>

record fitted =
  numerical :: "num_params option list"
  categorical :: "real option list"

text \<open>
  \<^verbatim>\<open>HeartDiseasePreprocessor\<close>: the two feature lists and the pipeline, which is
  unfitted (\<open>None\<close>) after \<^verbatim>\<open>_create_pipeline\<close>.
\<close>

record preprocessor =
  numerical_features :: "string list"
  categorical_features :: "string list"
  pipeline :: "fitted option"

definition HeartDiseasePreprocessor :: preprocessor where
  "HeartDiseasePreprocessor =
     \<lparr>numerical_features = [''age'', ''trestbps'', ''chol'', ''thalach'', ''oldpeak''],
      categorical_features =
        [''sex'', ''cp'', ''fbs'', ''restecg'', ''exang'', ''slope'', ''ca'', ''thal''],
      pipeline = None\<rparr>"

definition fit_numerical :: "cell list \<Rightarrow> num_params option" where
  "fit_numerical col =
     (case observed col of
        [] \<Rightarrow> None
      | v # vs \<Rightarrow>
          (let m = median (v # vs); imputed = map (impute m) col
           in Some \<lparr>imputer_median = m, scaler_mean = mean imputed, scaler_std = std imputed,
                    scaler_scale = handle_zeros_in_scale (std imputed)\<rparr>))"

definition fit_categorical :: "cell list \<Rightarrow> real option" where
  "fit_categorical col = most_frequent (observed col)"

text \<open>
  \<^verbatim>\<open>fit\<close>: \<^verbatim>\<open>self.pipeline.fit(X)\<close>. The ColumnTransformer selects the configured
  columns by name and raises when one is absent; a frame without rows is refused.
\<close>

definition fit :: "preprocessor \<Rightarrow> dataframe \<Rightarrow> error + preprocessor" where
  "fit p X =
     (if \<not> set (numerical_features p @ categorical_features p) \<subseteq> set (columns X)
      then Inl SchemaError
      else if rows X = [] then Inl EmptyInputError
      else Inr (p\<lparr>pipeline := Some
             \<lparr>numerical = map (\<lambda>n. fit_numerical (column X n)) (numerical_features p),
              categorical = map (\<lambda>n. fit_categorical (column X n)) (categorical_features p)\<rparr>\<rparr>))"

text \<open>One numerical cell: imputation with the median, then \<open>(x - mean) / scale\<close>.\<close>

definition transform_numerical :: "num_params \<Rightarrow> cell \<Rightarrow> real" where
  "transform_numerical q c = (impute (imputer_median q) c - scaler_mean q) / scaler_scale q"

text \<open>
  One row through the fitted ColumnTransformer: the numerical block, then the
  categorical block; a feature whose entry is \<open>None\<close> is dropped.
\<close>

definition transform_row :: "preprocessor \<Rightarrow> fitted \<Rightarrow> string list \<Rightarrow> cell list \<Rightarrow> cell list" where
  "transform_row p f cols r =
     concat (map (\<lambda>(n, st). case st of None \<Rightarrow> []
                                | Some q \<Rightarrow> [Some (transform_numerical q (cell_at cols r n))])
                 (zip (numerical_features p) (numerical f)))
     @ concat (map (\<lambda>(n, st). case st of None \<Rightarrow> []
                                | Some m \<Rightarrow> [Some (impute m (cell_at cols r n))])
                 (zip (categorical_features p) (categorical f)))"

text \<open>
  \<^verbatim>\<open>transform\<close>: \<^verbatim>\<open>self.pipeline.transform(X)\<close>, then a DataFrame over the result
  with the columns \<^verbatim>\<open>numerical_features + categorical_features\<close>; the DataFrame
  constructor raises when the rows do not have that many cells.
\<close>

definition transform :: "preprocessor \<Rightarrow> dataframe \<Rightarrow> error + dataframe" where
  "transform p X =
     (case pipeline p of
        None \<Rightarrow> Inl NotFittedError
      | Some f \<Rightarrow>
          if \<not> set (numerical_features p @ categorical_features p) \<subseteq> set (columns X)
          then Inl SchemaError
          else if rows X = [] then Inl EmptyInputError
          else
            (let X_transformed = map (transform_row p f (columns X)) (rows X);
                 feature_names = numerical_features p @ categorical_features p
             in if list_all (\<lambda>r. length r = length feature_names) X_transformed
                then Inr \<lparr>columns = feature_names, rows = X_transformed\<rparr>
                else Inl ShapeError))"

text \<open>
  \<^verbatim>\<open>fit_transform\<close>: \<^verbatim>\<open>self.fit(X)\<close>, then \<^verbatim>\<open>self.transform(X)\<close>. The object is
  mutated by \<open>fit\<close>, so the function returns it beside the result; it stays fitted when
  only the transform raises.
\<close>

definition fit_transform :: "preprocessor \<Rightarrow> dataframe \<Rightarrow> (error + dataframe) \<times> preprocessor" where
  "fit_transform p X =
     (case fit p X of
        Inl e \<Rightarrow> (Inl e, p)
      | Inr p' \<Rightarrow> (transform p' X, p'))"

subsection \<open>Metric evaluator\<close>

text \<open>
  Labels are the binarised target: \<open>True\<close> for the label 1 (disease), \<open>False\<close> for 0.
  The functions of \<^verbatim>\<open>sklearn.metrics\<close> are written out for binary labels, with the
  policy \<^verbatim>\<open>zero_division=0\<close>.
\<close>

text \<open>
  A Python float as a metrics dictionary holds it: a number, or NaN (\<open>None\<close>). Every
  comparison with NaN is false.
\<close>

type_synonym pyfloat = "real option"

type_synonym metrics = "(string \<times> pyfloat) list"

definition float_less :: "pyfloat \<Rightarrow> pyfloat \<Rightarrow> bool" where
  "float_less x y =
     (case x of None \<Rightarrow> False
      | Some a \<Rightarrow> (case y of None \<Rightarrow> False | Some b \<Rightarrow> a < b))"

definition binary_label :: "cell \<Rightarrow> bool" where
  "binary_label c = (c = Some 1)"

definition zero_division :: "nat \<Rightarrow> nat \<Rightarrow> real" where
  "zero_division a b = (if b = 0 then 0 else real a / real b)"

definition true_positives :: "bool list \<Rightarrow> bool list \<Rightarrow> nat" where
  "true_positives y_true y_pred = length (filter (\<lambda>(t, p). t \<and> p) (zip y_true y_pred))"

definition accuracy_score :: "bool list \<Rightarrow> bool list \<Rightarrow> real" where
  "accuracy_score y_true y_pred =
     real (length (filter (\<lambda>(t, p). t = p) (zip y_true y_pred))) / real (length y_true)"

definition precision_score :: "bool list \<Rightarrow> bool list \<Rightarrow> real" where
  "precision_score y_true y_pred =
     zero_division (true_positives y_true y_pred) (length (filter (\<lambda>p. p) y_pred))"

definition recall_score :: "bool list \<Rightarrow> bool list \<Rightarrow> real" where
  "recall_score y_true y_pred =
     zero_division (true_positives y_true y_pred) (length (filter (\<lambda>t. t) y_true))"

definition f1_score :: "bool list \<Rightarrow> bool list \<Rightarrow> real" where
  "f1_score y_true y_pred =
     (let p = precision_score y_true y_pred; r = recall_score y_true y_pred
      in if p + r = 0 then 0 else 2 * p * r / (p + r))"

text \<open>
  \<^verbatim>\<open>roc_auc_score\<close>: raises when \<open>y_true\<close> does not hold both classes; otherwise the
  area under the ROC curve, which is the share of (positive, negative) pairs that the
  scores order correctly, a tie counting one half.
\<close>

definition roc_auc_score :: "bool list \<Rightarrow> real list \<Rightarrow> error + real" where
  "roc_auc_score y_true y_score =
     (if True \<notin> set y_true \<or> False \<notin> set y_true then Inl DegenerateLabelsError
      else if length y_true \<noteq> length y_score then Inl LengthMismatchError
      else
        (let pos = map snd (filter (\<lambda>(t, s). t) (zip y_true y_score));
             neg = map snd (filter (\<lambda>(t, s). \<not> t) (zip y_true y_score))
         in Inr (sum_list (concat (map (\<lambda>p. map (\<lambda>n. if n < p then 1 else if n = p then 1 / 2 else 0) neg) pos))
                 / real (length pos * length neg))))"

text \<open>
  \<^verbatim>\<open>_calculate_metrics\<close>: a dictionary literal; its values are evaluated in order, and
  an exception raised by one of them leaves the function without a dictionary.
\<close>

definition calculate_metrics :: "bool list \<Rightarrow> bool list \<Rightarrow> real list \<Rightarrow> error + metrics" where
  "calculate_metrics y_true y_pred y_pred_proba =
     (if length y_true \<noteq> length y_pred then Inl LengthMismatchError
      else
        (case roc_auc_score y_true y_pred_proba of
           Inl e \<Rightarrow> Inl e
         | Inr auc \<Rightarrow>
             Inr [(''accuracy'', Some (accuracy_score y_true y_pred)),
                  (''precision'', Some (precision_score y_true y_pred)),
                  (''recall'', Some (recall_score y_true y_pred)),
                  (''f1_score'', Some (f1_score y_true y_pred)),
                  (''roc_auc'', Some auc)]))"

subsection \<open>Model trainer\<close>

text \<open>
  The scikit-learn estimators and helpers are parameters of the model: fitting each of
  the two candidate estimators, predicting with a fitted model, cross-validation, and
  the stratified, seeded \<^verbatim>\<open>train_test_split\<close>, which gives the row positions of the
  training and of the test partition. \<open>'m\<close> is the type of fitted models.
  \<^verbatim>\<open>cross_val_score\<close> is called without \<^verbatim>\<open>error_score\<close>, whose default is NaN: the
  score of a fold in which fitting or scoring fails is NaN.
\<close>

record 'm sklearn =
  LogisticRegression_fit :: "dataframe \<Rightarrow> cell list \<Rightarrow> error + 'm"
  RandomForestClassifier_fit :: "dataframe \<Rightarrow> cell list \<Rightarrow> error + 'm"
  model_predict :: "'m \<Rightarrow> dataframe \<Rightarrow> error + bool list"
  model_predict_proba :: "'m \<Rightarrow> dataframe \<Rightarrow> error + real list"
  cross_val_score :: "'m \<Rightarrow> dataframe \<Rightarrow> cell list \<Rightarrow> error + pyfloat list"
  split_positions :: "cell list \<Rightarrow> error + (nat list \<times> nat list)"

text \<open>
  \<^verbatim>\<open>ModelTrainer\<close>: the dictionaries \<^verbatim>\<open>self.models\<close> and \<^verbatim>\<open>self.results\<close>, in
  insertion order. An assignment \<^verbatim>\<open>d[k] = v\<close> is \<open>AList.update\<close>: a known key keeps
  its place, a new one is appended.
\<close>

record 'm ModelTrainer =
  models :: "(string \<times> 'm) list"
  results :: "(string \<times> metrics) list"

definition new_trainer :: "'m ModelTrainer" where
  "new_trainer = \<lparr>models = [], results = []\<rparr>"

text \<open>
  \<^verbatim>\<open>cv_scores.mean()\<close> and \<^verbatim>\<open>cv_scores.std()\<close> of numpy: NaN when a score is NaN, and
  for an array without elements.
\<close>

definition np_mean :: "pyfloat list \<Rightarrow> pyfloat" where
  "np_mean xs = (if xs = [] \<or> None \<in> set xs then None else Some (mean (observed xs)))"

definition np_std :: "pyfloat list \<Rightarrow> pyfloat" where
  "np_std xs = (if xs = [] \<or> None \<in> set xs then None else Some (std (observed xs)))"

text \<open>
  The body shared by \<^verbatim>\<open>train_logistic_regression\<close> and \<^verbatim>\<open>train_random_forest\<close>:
  fit, predict on the test split, compute the metrics, cross-validate on the training
  split, and only then record the model and its metrics under the model's name. An
  exception of any step leaves the trainer as it was.
\<close>

definition train_and_record ::
  "'m sklearn \<Rightarrow> string \<Rightarrow> (dataframe \<Rightarrow> cell list \<Rightarrow> error + 'm) \<Rightarrow> 'm ModelTrainer \<Rightarrow>
   dataframe \<Rightarrow> cell list \<Rightarrow> dataframe \<Rightarrow> cell list \<Rightarrow> error + ('m \<times> metrics \<times> 'm ModelTrainer)" where
  "train_and_record sk name fit_estimator t X_train y_train X_test y_test =
     (case fit_estimator X_train y_train of
        Inl e \<Rightarrow> Inl e
      | Inr model \<Rightarrow>
     (case model_predict sk model X_test of
        Inl e \<Rightarrow> Inl e
      | Inr y_pred \<Rightarrow>
     (case model_predict_proba sk model X_test of
        Inl e \<Rightarrow> Inl e
      | Inr y_pred_proba \<Rightarrow>
     (case calculate_metrics (map binary_label y_test) y_pred y_pred_proba of
        Inl e \<Rightarrow> Inl e
      | Inr metrics0 \<Rightarrow>
     (case cross_val_score sk model X_train y_train of
        Inl e \<Rightarrow> Inl e
      | Inr cv_scores \<Rightarrow>
          (let metrics1 = AList.update ''cv_roc_auc_mean'' (np_mean cv_scores) metrics0;
               metrics2 = AList.update ''cv_roc_auc_std'' (np_std cv_scores) metrics1
           in Inr (model, metrics2,
                   t\<lparr>models := AList.update name model (models t),
                     results := AList.update name metrics2 (results t)\<rparr>)))))))"

definition train_logistic_regression ::
  "'m sklearn \<Rightarrow> 'm ModelTrainer \<Rightarrow> dataframe \<Rightarrow> cell list \<Rightarrow> dataframe \<Rightarrow> cell list
   \<Rightarrow> error + ('m \<times> metrics \<times> 'm ModelTrainer)" where
  "train_logistic_regression sk t X_train y_train X_test y_test =
     train_and_record sk ''logistic_regression'' (LogisticRegression_fit sk) t
       X_train y_train X_test y_test"

definition train_random_forest ::
  "'m sklearn \<Rightarrow> 'm ModelTrainer \<Rightarrow> dataframe \<Rightarrow> cell list \<Rightarrow> dataframe \<Rightarrow> cell list
   \<Rightarrow> error + ('m \<times> metrics \<times> 'm ModelTrainer)" where
  "train_random_forest sk t X_train y_train X_test y_test =
     train_and_record sk ''random_forest'' (RandomForestClassifier_fit sk) t
       X_train y_train X_test y_test"

text \<open>
  \<^verbatim>\<open>max(self.results.items(), key=lambda x: x[1][metric])\<close>: the loop of \<open>max\<close> calls
  the key function on every item in order (a missing metric raises there) and replaces
  the best item only by one whose key compares greater, which a NaN key never does and
  no key does against a NaN.
\<close>

fun max_by_metric ::
  "string \<Rightarrow> (string \<times> metrics) list \<Rightarrow> (string \<times> pyfloat) option
   \<Rightarrow> error + (string \<times> pyfloat) option" where
  "max_by_metric metric [] best = Inr best"
| "max_by_metric metric ((name, ms) # rest) best =
     (case map_of ms metric of
        None \<Rightarrow> Inl UnknownMetricError
      | Some v \<Rightarrow>
          (case best of
             None \<Rightarrow> max_by_metric metric rest (Some (name, v))
           | Some (bname, bv) \<Rightarrow>
               if float_less bv v then max_by_metric metric rest (Some (name, v))
               else max_by_metric metric rest (Some (bname, bv))))"

text \<open>
  \<^verbatim>\<open>select_best_model\<close>: the name of the maximal item, then
  \<^verbatim>\<open>self.models[best_model_name]\<close>.
\<close>

definition select_best_model :: "'m ModelTrainer \<Rightarrow> string \<Rightarrow> error + ('m \<times> string)" where
  "select_best_model t metric =
     (case max_by_metric metric (results t) None of
        Inl e \<Rightarrow> Inl e
      | Inr None \<Rightarrow> Inl NoModelsTrainedError
      | Inr (Some (best_model_name, v)) \<Rightarrow>
          (case map_of (models t) best_model_name of
             None \<Rightarrow> Inl KeyError
           | Some m \<Rightarrow> Inr (m, best_model_name)))"

subsection \<open>Persistence\<close>

text \<open>
  \<^verbatim>\<open>joblib.dump\<close> and \<^verbatim>\<open>joblib.load\<close> write and read one whole object per path. The
  file system is a map from paths to the objects dumped there.
\<close>

datatype 'm artifact = ModelArtifact 'm | PreprocessorArtifact preprocessor

type_synonym 'm files = "string \<Rightarrow> 'm artifact option"

definition joblib_dump :: "'m artifact \<Rightarrow> string \<Rightarrow> 'm files \<Rightarrow> 'm files" where
  "joblib_dump obj path fs = fs(path \<mapsto> obj)"

definition joblib_load :: "string \<Rightarrow> 'm files \<Rightarrow> error + 'm artifact" where
  "joblib_load path fs = (case fs path of None \<Rightarrow> Inl FileNotFoundError | Some obj \<Rightarrow> Inr obj)"

text \<open>\<^verbatim>\<open>HeartDiseasePreprocessor.save\<close> dumps \<^verbatim>\<open>self\<close>; \<^verbatim>\<open>load\<close> returns what the path holds.\<close>

definition save :: "preprocessor \<Rightarrow> string \<Rightarrow> 'm files \<Rightarrow> 'm files" where
  "save p path fs = joblib_dump (PreprocessorArtifact p) path fs"

definition load :: "string \<Rightarrow> 'm files \<Rightarrow> error + 'm artifact" where
  "load path fs = joblib_load path fs"

definition save_model :: "'m \<Rightarrow> string \<Rightarrow> 'm files \<Rightarrow> 'm files" where
  "save_model m model_path fs = joblib_dump (ModelArtifact m) model_path fs"

text \<open>Calling \<^verbatim>\<open>.transform(X)\<close> on a loaded object.\<close>

definition artifact_transform :: "'m artifact \<Rightarrow> dataframe \<Rightarrow> error + dataframe" where
  "artifact_transform obj X =
     (case obj of PreprocessorArtifact p \<Rightarrow> transform p X | ModelArtifact m \<Rightarrow> Inl AttributeError)"

subsection \<open>Training script\<close>

definition raw_data_path :: string where
  "raw_data_path = ''data/raw/heart_disease_with_headers.csv''"

definition model_path :: string where
  "model_path = ''models/best_model.pkl''"

definition preprocessor_path :: string where
  "preprocessor_path = ''models/preprocessor.pkl''"

text \<open>
  \<^verbatim>\<open>train_test_split(X_transformed, y, ..., stratify=y)\<close>: the rows of both arguments at
  the training positions and at the test positions.
\<close>

definition take_positions :: "nat list \<Rightarrow> 'a list \<Rightarrow> 'a list" where
  "take_positions ps xs = map (\<lambda>i. xs ! i) (filter (\<lambda>i. i < length xs) ps)"

definition train_test_split ::
  "'m sklearn \<Rightarrow> dataframe \<Rightarrow> cell list \<Rightarrow> error + (dataframe \<times> dataframe \<times> cell list \<times> cell list)" where
  "train_test_split sk X y =
     (case split_positions sk y of
        Inl e \<Rightarrow> Inl e
      | Inr (train, test) \<Rightarrow>
          Inr (X\<lparr>rows := take_positions train (rows X)\<rparr>, X\<lparr>rows := take_positions test (rows X)\<rparr>,
               take_positions train y, take_positions test y))"

text \<open>
  What a run of \<^verbatim>\<open>main\<close> leaves behind: \<open>Inr True\<close> for the returned \<open>True\<close>, or the
  exception that \<^verbatim>\<open>except Exception\<close> logs and raises again; the preprocessor and the
  trainer as they were when the run ended; and the files written.
\<close>

record 'm run =
  outcome :: "error + bool"
  run_preprocessor :: preprocessor
  run_trainer :: "'m ModelTrainer"
  run_files :: "'m files"

text \<open>
  \<^verbatim>\<open>main\<close>, with the file read by \<^verbatim>\<open>load_data\<close> as the parameter \<open>read_csv\<close>:
  load, clean, split features and target, fit and transform the features, save the
  preprocessor, split into training and test rows, train the two models, select the
  best one by \<open>roc_auc\<close> and save it.
\<close>

definition main :: "'m sklearn \<Rightarrow> (string \<Rightarrow> error + dataframe) \<Rightarrow> 'm files \<Rightarrow> 'm run" where
  "main sk read_csv fs =
     (case read_csv raw_data_path of
        Inl e \<Rightarrow> \<lparr>outcome = Inl e, run_preprocessor = HeartDiseasePreprocessor,
                  run_trainer = new_trainer, run_files = fs\<rparr>
      | Inr df \<Rightarrow>
     (case split_features_target (clean_data df) ''target'' of
        Inl e \<Rightarrow> \<lparr>outcome = Inl e, run_preprocessor = HeartDiseasePreprocessor,
                  run_trainer = new_trainer, run_files = fs\<rparr>
      | Inr (X, y) \<Rightarrow>
     (case fit_transform HeartDiseasePreprocessor X of
        (Inl e, pre) \<Rightarrow> \<lparr>outcome = Inl e, run_preprocessor = pre,
                         run_trainer = new_trainer, run_files = fs\<rparr>
      | (Inr X_transformed, pre) \<Rightarrow>
     (let fs1 = save pre preprocessor_path fs in
     (case train_test_split sk X_transformed y of
        Inl e \<Rightarrow> \<lparr>outcome = Inl e, run_preprocessor = pre,
                  run_trainer = new_trainer, run_files = fs1\<rparr>
      | Inr (X_train, X_test, y_train, y_test) \<Rightarrow>
     (case train_logistic_regression sk new_trainer X_train y_train X_test y_test of
        Inl e \<Rightarrow> \<lparr>outcome = Inl e, run_preprocessor = pre,
                  run_trainer = new_trainer, run_files = fs1\<rparr>
      | Inr (lr_model, lr_metrics, t1) \<Rightarrow>
     (case train_random_forest sk t1 X_train y_train X_test y_test of
        Inl e \<Rightarrow> \<lparr>outcome = Inl e, run_preprocessor = pre,
                  run_trainer = t1, run_files = fs1\<rparr>
      | Inr (rf_model, rf_metrics, t2) \<Rightarrow>
     (case select_best_model t2 ''roc_auc'' of
        Inl e \<Rightarrow> \<lparr>outcome = Inl e, run_preprocessor = pre,
                  run_trainer = t2, run_files = fs1\<rparr>
      | Inr (best_model, best_model_name) \<Rightarrow>
          \<lparr>outcome = Inr True, run_preprocessor = pre, run_trainer = t2,
           run_files = save_model best_model model_path fs1\<rparr>))))))))"

subsection \<open>Prediction endpoint\<close>

text \<open>The request body \<^verbatim>\<open>HeartDiseaseInput\<close>, after validation by the framework.\<close>

record HeartDiseaseInput =
  age :: int
  sex :: int
  cp :: int
  trestbps :: int
  chol :: int
  fbs :: int
  restecg :: int
  thalach :: int
  exang :: int
  oldpeak :: real
  slope :: int
  ca :: int
  thal :: int

record PredictionResponse =
  prediction :: int
  probability :: real
  response_risk_level :: string
  message :: string
  timestamp :: string

text \<open>The module's globals \<^verbatim>\<open>model\<close> and \<^verbatim>\<open>preprocessor\<close>; \<open>None\<close> is Python's \<open>None\<close>.\<close>

record 'm app =
  app_model :: "'m artifact option"
  app_preprocessor :: "'m artifact option"

text \<open>
  The load at start-up: both objects are loaded, or an exception of either load leaves
  both globals \<open>None\<close>.
\<close>

definition startup :: "'m files \<Rightarrow> 'm app" where
  "startup fs =
     (case joblib_load model_path fs of
        Inl e \<Rightarrow> \<lparr>app_model = None, app_preprocessor = None\<rparr>
      | Inr m \<Rightarrow>
          (case joblib_load preprocessor_path fs of
             Inl e \<Rightarrow> \<lparr>app_model = None, app_preprocessor = None\<rparr>
           | Inr p \<Rightarrow> \<lparr>app_model = Some m, app_preprocessor = Some p\<rparr>))"

text \<open>\<^verbatim>\<open>pd.DataFrame([input_data.model_dump()])\<close>: one row, the fields in declaration order.\<close>

definition input_frame :: "HeartDiseaseInput \<Rightarrow> dataframe" where
  "input_frame i =
     \<lparr>columns = [''age'', ''sex'', ''cp'', ''trestbps'', ''chol'', ''fbs'', ''restecg'',
                 ''thalach'', ''exang'', ''oldpeak'', ''slope'', ''ca'', ''thal''],
      rows = [[Some (real_of_int (age i)), Some (real_of_int (sex i)), Some (real_of_int (cp i)),
               Some (real_of_int (trestbps i)), Some (real_of_int (chol i)),
               Some (real_of_int (fbs i)), Some (real_of_int (restecg i)),
               Some (real_of_int (thalach i)), Some (real_of_int (exang i)), Some (oldpeak i),
               Some (real_of_int (slope i)), Some (real_of_int (ca i)),
               Some (real_of_int (thal i))]]\<rparr>"

text \<open>The risk band of a probability, as the \<^verbatim>\<open>if\<close>/\<^verbatim>\<open>elif\<close>/\<^verbatim>\<open>else\<close> of \<^verbatim>\<open>predict\<close>.\<close>

definition risk_level :: "real \<Rightarrow> string" where
  "risk_level p =
     (if p < 0.3 then ''Low''
      else if p < 0.7 then ''Medium''
      else ''High'')"

text \<open>Calling \<^verbatim>\<open>.predict\<close> and \<^verbatim>\<open>.predict_proba\<close> on the loaded model object.\<close>

definition artifact_predict :: "'m sklearn \<Rightarrow> 'm artifact \<Rightarrow> dataframe \<Rightarrow> error + bool list" where
  "artifact_predict sk obj X =
     (case obj of ModelArtifact m \<Rightarrow> model_predict sk m X | PreprocessorArtifact p \<Rightarrow> Inl AttributeError)"

definition artifact_predict_proba :: "'m sklearn \<Rightarrow> 'm artifact \<Rightarrow> dataframe \<Rightarrow> error + real list" where
  "artifact_predict_proba sk obj X =
     (case obj of ModelArtifact m \<Rightarrow> model_predict_proba sk m X
      | PreprocessorArtifact p \<Rightarrow> Inl AttributeError)"

text \<open>
  The \<^verbatim>\<open>try\<close> block of \<^verbatim>\<open>predict\<close>. \<open>now\<close> is the clock's ISO timestamp.
\<close>

definition predict_try ::
  "'m sklearn \<Rightarrow> string \<Rightarrow> 'm app \<Rightarrow> HeartDiseaseInput \<Rightarrow> error + PredictionResponse" where
  "predict_try sk now a input_data =
     (case (app_model a, app_preprocessor a) of
        (Some model, Some pre) \<Rightarrow>
          (case artifact_transform pre (input_frame input_data) of
             Inl e \<Rightarrow> Inl e
           | Inr input_processed \<Rightarrow>
          (case artifact_predict sk model input_processed of
             Inl e \<Rightarrow> Inl e
           | Inr [] \<Rightarrow> Inl IndexError
           | Inr (pred # preds) \<Rightarrow>
          (case artifact_predict_proba sk model input_processed of
             Inl e \<Rightarrow> Inl e
           | Inr [] \<Rightarrow> Inl IndexError
           | Inr (proba # probas) \<Rightarrow>
               Inr \<lparr>prediction = (if pred then 1 else 0),
                    probability = proba,
                    response_risk_level = risk_level proba,
                    message = ''Heart disease '' @ (if pred then ''detected'' else ''not detected''),
                    timestamp = now\<rparr>)))
      | _ \<Rightarrow> Inl (HTTPException 503 ''Model not available''))"

text \<open>
  \<^verbatim>\<open>predict\<close>: every exception of the \<^verbatim>\<open>try\<close> block, the HTTPException raised
  there included, is caught by \<^verbatim>\<open>except Exception as e\<close>, which raises
  \<^verbatim>\<open>HTTPException(status_code=500, detail=f"Prediction failed: {str(e)}")\<close>.
  \<open>str_of\<close> is Python's \<open>str\<close> on exceptions.
\<close>

definition predict ::
  "'m sklearn \<Rightarrow> (error \<Rightarrow> string) \<Rightarrow> string \<Rightarrow> 'm app \<Rightarrow> HeartDiseaseInput
   \<Rightarrow> error + PredictionResponse" where
  "predict sk str_of now a input_data =
     (case predict_try sk now a input_data of
        Inl e \<Rightarrow> Inl (HTTPException 500 (''Prediction failed: '' @ str_of e))
      | Inr response \<Rightarrow> Inr response)"

subsection \<open>Notions used in the statements\<close>

text \<open>
  The value a recorded result holds for a metric, where it holds one.
\<close>

abbreviation metric_of :: "string \<Rightarrow> (string \<times> metrics) \<Rightarrow> pyfloat" where
  "metric_of metric item \<equiv> the (map_of (snd item) metric)"

text \<open>
  A recorded value compared with a number: \<open>at_most x v\<close> when \<open>x\<close> is NaN or a number
  not greater than \<open>v\<close>, and \<open>below x v\<close> when \<open>x\<close> is NaN or a number smaller than \<open>v\<close>.
\<close>

definition at_most :: "pyfloat \<Rightarrow> real \<Rightarrow> bool" where
  "at_most x v = (case x of None \<Rightarrow> True | Some w \<Rightarrow> w \<le> v)"

definition below :: "pyfloat \<Rightarrow> real \<Rightarrow> bool" where
  "below x v = (case x of None \<Rightarrow> True | Some w \<Rightarrow> w < v)"

text \<open>
  The invariant of a trainer: \<^verbatim>\<open>self.models\<close> and \<^verbatim>\<open>self.results\<close> hold the same
  names in the same order, each once. The two training methods write both dictionaries
  under one name, so every trainer they produce satisfies it.
\<close>

definition recorded :: "'m ModelTrainer \<Rightarrow> bool" where
  "recorded t = (map fst (models t) = map fst (results t) \<and> distinct (map fst (results t)))"

text \<open>The keys of the dictionary that a training method records for its model.\<close>

definition recorded_metrics :: "string list" where
  "recorded_metrics = [''accuracy'', ''precision'', ''recall'', ''f1_score'', ''roc_auc'',
                       ''cv_roc_auc_mean'', ''cv_roc_auc_std'']"

text \<open>
  The trainers a program can hold. \<^verbatim>\<open>self.results\<close> is written by the two training
  methods only, so a trainer is a new one after a sequence of calls of these methods, on
  any arguments; a call that raises leaves the trainer as it was.
\<close>

datatype call =
    TrainLogisticRegression dataframe "cell list" dataframe "cell list"
  | TrainRandomForest dataframe "cell list" dataframe "cell list"

definition after_call :: "'m sklearn \<Rightarrow> 'm ModelTrainer \<Rightarrow> call \<Rightarrow> 'm ModelTrainer" where
  "after_call sk t c =
     (case c of
        TrainLogisticRegression X_train y_train X_test y_test \<Rightarrow>
          (case train_logistic_regression sk t X_train y_train X_test y_test of
             Inl e \<Rightarrow> t
           | Inr (model, ms, t') \<Rightarrow> t')
      | TrainRandomForest X_train y_train X_test y_test \<Rightarrow>
          (case train_random_forest sk t X_train y_train X_test y_test of
             Inl e \<Rightarrow> t
           | Inr (model, ms, t') \<Rightarrow> t'))"

definition trainer_after :: "'m sklearn \<Rightarrow> call list \<Rightarrow> 'm ModelTrainer" where
  "trainer_after sk calls = foldl (after_call sk) new_trainer calls"

subsection \<open>Example data\<close>

text \<open>The column names that \<^verbatim>\<open>download_data.py\<close> gives the data file.\<close>

definition COLUMN_NAMES :: "string list" where
  "COLUMN_NAMES = [''age'', ''sex'', ''cp'', ''trestbps'', ''chol'', ''fbs'', ''restecg'',
                   ''thalach'', ''exang'', ''oldpeak'', ''slope'', ''ca'', ''thal'', ''target'']"

text \<open>
  A data file of five subjects. The third row has fewer than half of its cells; the fourth
  lacks its cholesterol value. The age of the last subject is the parameter.
\<close>

definition example_df :: "real \<Rightarrow> dataframe" where
  "example_df a =
     \<lparr>columns = COLUMN_NAMES,
      rows = [[Some 63, Some 1, Some 3, Some 145, Some 233, Some 1, Some 0, Some 150, Some 0, Some 2.3, Some 0, Some 0, Some 1, Some 1],
              [Some 37, Some 1, Some 2, Some 130, Some 250, Some 0, Some 1, Some 187, Some 0, Some 3.5, Some 0, Some 0, Some 2, Some 0],
              [None, None, None, None, None, None, None, None, Some 1, Some 0.6, Some 1, Some 0, Some 2, Some 1],
              [Some 41, Some 0, Some 1, Some 130, None, Some 0, Some 0, Some 172, Some 0, Some 1.4, Some 2, Some 0, Some 2, Some 1],
              [Some a, Some 1, Some 1, Some 120, Some 236, Some 0, Some 1, Some 178, Some 0, Some 0.8, Some 2, Some 0, Some 2, Some 0]]\<rparr>"

text \<open>The feature table of the example after cleaning: four rows, without the target.\<close>

definition example_X :: "real \<Rightarrow> dataframe" where
  "example_X a =
     \<lparr>columns = [''age'', ''sex'', ''cp'', ''trestbps'', ''chol'', ''fbs'', ''restecg'',
                   ''thalach'', ''exang'', ''oldpeak'', ''slope'', ''ca'', ''thal''],
      rows = [[Some 63, Some 1, Some 3, Some 145, Some 233, Some 1, Some 0, Some 150, Some 0, Some 2.3, Some 0, Some 0, Some 1],
              [Some 37, Some 1, Some 2, Some 130, Some 250, Some 0, Some 1, Some 187, Some 0, Some 3.5, Some 0, Some 0, Some 2],
              [Some 41, Some 0, Some 1, Some 130, None, Some 0, Some 0, Some 172, Some 0, Some 1.4, Some 2, Some 0, Some 2],
              [Some a, Some 1, Some 1, Some 120, Some 236, Some 0, Some 1, Some 178, Some 0, Some 0.8, Some 2, Some 0, Some 2]]\<rparr>"

text \<open>
  Stub estimators: the fitted model is a number, model 1 predicts the positive class with
  probability 0.9 for every row and any other model the negative class with probability
  0.1; the split puts the first two cleaned rows into the training partition and the next
  two into the test partition. What fitting each of the two estimators returns is
  the parameter.
\<close>

definition stub_sklearn ::
  "(dataframe \<Rightarrow> cell list \<Rightarrow> error + nat) \<Rightarrow> (dataframe \<Rightarrow> cell list \<Rightarrow> error + nat) \<Rightarrow> nat sklearn" where
  "stub_sklearn lr_fit rf_fit =
     \<lparr>LogisticRegression_fit = lr_fit,
      RandomForestClassifier_fit = rf_fit,
      model_predict = (\<lambda>m X. Inr (map (\<lambda>r. m = 1) (rows X))),
      model_predict_proba = (\<lambda>m X. Inr (map (\<lambda>r. if m = 1 then 0.9 else 0.1) (rows X))),
      cross_val_score = (\<lambda>m X y. Inr [Some 0.7, Some 0.9]),
      split_positions = (\<lambda>y. Inr ([0, 1], [2, 3]))\<rparr>"

definition working_sklearn :: "nat sklearn" where
  "working_sklearn = stub_sklearn (\<lambda>X y. Inr 1) (\<lambda>X y. Inr 2)"

definition lr_failing_sklearn :: "nat sklearn" where
  "lr_failing_sklearn = stub_sklearn (\<lambda>X y. Inl ModelTrainingFailure) (\<lambda>X y. Inr 2)"

definition rf_failing_sklearn :: "nat sklearn" where
  "rf_failing_sklearn = stub_sklearn (\<lambda>X y. Inr 1) (\<lambda>X y. Inl ModelTrainingFailure)"

text \<open>\<^verbatim>\<open>pd.read_csv\<close> on a file system whose data file is the example.\<close>

definition example_csv :: "real \<Rightarrow> string \<Rightarrow> error + dataframe" where
  "example_csv a path = Inr (example_df a)"

text \<open>The metrics and trainer states that the stub estimators lead to on the example.\<close>

definition lr_metrics :: metrics where
  "lr_metrics = [(''accuracy'', Some (1 / 2)), (''precision'', Some (1 / 2)), (''recall'', Some 1),
                 (''f1_score'', Some (2 / 3)), (''roc_auc'', Some (1 / 2)),
                 (''cv_roc_auc_mean'', Some (mean [0.7, 0.9])),
                 (''cv_roc_auc_std'', Some (std [0.7, 0.9]))]"

definition rf_metrics :: metrics where
  "rf_metrics = [(''accuracy'', Some (1 / 2)), (''precision'', Some 0), (''recall'', Some 0),
                 (''f1_score'', Some 0), (''roc_auc'', Some (1 / 2)),
                 (''cv_roc_auc_mean'', Some (mean [0.7, 0.9])),
                 (''cv_roc_auc_std'', Some (std [0.7, 0.9]))]"

definition lr_trainer :: "nat ModelTrainer" where
  "lr_trainer = \<lparr>models = [(''logistic_regression'', 1)],
                 results = [(''logistic_regression'', lr_metrics)]\<rparr>"

definition both_trainer :: "nat ModelTrainer" where
  "both_trainer = \<lparr>models = [(''logistic_regression'', 1), (''random_forest'', 2)],
                   results = [(''logistic_regression'', lr_metrics), (''random_forest'', rf_metrics)]\<rparr>"




text \<open>A batch of two rows to transform; the first lacks the age and the sex.\<close>

definition example_batch :: dataframe where
  "example_batch =
     \<lparr>columns = [''age'', ''sex'', ''cp'', ''trestbps'', ''chol'', ''fbs'', ''restecg'',
                   ''thalach'', ''exang'', ''oldpeak'', ''slope'', ''ca'', ''thal''],
      rows = [[None, None, Some 0, Some 140, Some 268, Some 0, Some 0, Some 160, Some 0, Some 3.6, Some 0, Some 2, Some 2],
              [Some 57, Some 1, Some 0, Some 130, Some 131, Some 0, Some 1, Some 115, Some 1, Some 1.2, Some 1, Some 1, Some 3]]\<rparr>"

text \<open>A valid request, and stand-ins for Python's \<open>str\<close> on exceptions.\<close>

definition example_input :: HeartDiseaseInput where
  "example_input =
     \<lparr>age = 63, sex = 1, cp = 3, trestbps = 145, chol = 233, fbs = 1, restecg = 0,
      thalach = 150, exang = 0, oldpeak = 2.3, slope = 0, ca = 0, thal = 1\<rparr>"

definition example_str :: "error \<Rightarrow> string" where
  "example_str e = ''error''"

section \<open>Properties\<close>

subsection \<open>Model selection\<close>

lemma float_less_simps:
  "float_less None y = False"
  "float_less x None = False"
  "float_less (Some a) (Some b) = (a < b)"
  by (simp_all add: float_less_def split: option.splits)

lemma at_most_simps: "at_most None v = True" "at_most (Some w) v = (w \<le> v)"
  by (simp_all add: at_most_def)

lemma below_simps: "below None v = True" "below (Some w) v = (w < v)"
  by (simp_all add: below_def)

lemma at_most_below: "at_most x b \<Longrightarrow> b < v \<Longrightarrow> below x v"
  by (cases x) (simp_all add: at_most_def below_def)

lemma below_at_most: "below x v \<Longrightarrow> at_most x v"
  by (cases x) (simp_all add: at_most_def below_def)

lemma at_most_trans: "at_most x b \<Longrightarrow> b \<le> v \<Longrightarrow> at_most x v"
  by (cases x) (simp_all add: at_most_def)

lemma not_float_less_at_most: "\<not> float_less (Some b) x \<Longrightarrow> at_most x b"
  by (cases x) (simp_all add: at_most_def float_less_def)

lemma max_by_metric_fails_iff:
  "(max_by_metric metric rs best = Inl e)
   = (e = UnknownMetricError \<and> (\<exists>item\<in>set rs. map_of (snd item) metric = None))"
  by (induction metric rs best rule: max_by_metric.induct)
     (auto split: option.splits)

lemma max_by_metric_nan:
  assumes "\<forall>item\<in>set rs. map_of (snd item) metric \<noteq> None"
  shows "max_by_metric metric rs (Some (bn, None)) = Inr (Some (bn, None))"
  using assms by (induction rs) (auto simp: float_less_simps)

lemma max_by_metric_best:
  assumes "\<forall>item\<in>set rs. map_of (snd item) metric \<noteq> None"
  shows "\<exists>r. max_by_metric metric rs (Some (bn, Some b)) = Inr (Some r) \<and>
           ((r = (bn, Some b) \<and> (\<forall>j<length rs. at_most (metric_of metric (rs ! j)) b))
            \<or> (\<exists>i<length rs. \<exists>v. r = (fst (rs ! i), Some v) \<and> metric_of metric (rs ! i) = Some v
                 \<and> b < v
                 \<and> (\<forall>j<i. below (metric_of metric (rs ! j)) v)
                 \<and> (\<forall>j<length rs. at_most (metric_of metric (rs ! j)) v)))"
  using assms
proof (induction rs arbitrary: bn b)
  case Nil
  then show ?case by simp
next
  case (Cons item rs)
  obtain name ms where item: "item = (name, ms)" by (cases item)
  from Cons.prems obtain x where x: "map_of ms metric = Some x" by (auto simp: item)
  have rest: "\<forall>item\<in>set rs. map_of (snd item) metric \<noteq> None" using Cons.prems by simp
  show ?case
  proof (cases "float_less (Some b) x")
    case True
    then obtain v where xv: "x = Some v" and bv: "b < v"
      by (cases x) (simp_all add: float_less_simps)
    from Cons.IH[OF rest, of name v] obtain r where
      r: "max_by_metric metric rs (Some (name, Some v)) = Inr (Some r)"
      and d: "(r = (name, Some v) \<and> (\<forall>j<length rs. at_most (metric_of metric (rs ! j)) v))
            \<or> (\<exists>i<length rs. \<exists>v'. r = (fst (rs ! i), Some v') \<and> metric_of metric (rs ! i) = Some v'
                 \<and> v < v'
                 \<and> (\<forall>j<i. below (metric_of metric (rs ! j)) v')
                 \<and> (\<forall>j<length rs. at_most (metric_of metric (rs ! j)) v'))"
      by blast
    have run: "max_by_metric metric (item # rs) (Some (bn, Some b)) = Inr (Some r)"
      using r True by (simp add: item x xv)
    from d show ?thesis
    proof
      assume a: "r = (name, Some v) \<and> (\<forall>j<length rs. at_most (metric_of metric (rs ! j)) v)"
      have all: "\<forall>j<length (item # rs). at_most (metric_of metric ((item # rs) ! j)) v"
      proof (intro allI impI)
        fix j assume "j < length (item # rs)"
        then show "at_most (metric_of metric ((item # rs) ! j)) v"
          using a by (cases j) (simp_all add: item x xv at_most_simps)
      qed
      have "0 < length (item # rs) \<and> r = (fst ((item # rs) ! 0), Some v)
              \<and> metric_of metric ((item # rs) ! 0) = Some v \<and> b < v
              \<and> (\<forall>j<0. below (metric_of metric ((item # rs) ! j)) v)
              \<and> (\<forall>j<length (item # rs). at_most (metric_of metric ((item # rs) ! j)) v)"
        using a bv all by (simp add: item x xv)
      then have "\<exists>i<length (item # rs). \<exists>v. r = (fst ((item # rs) ! i), Some v)
                 \<and> metric_of metric ((item # rs) ! i) = Some v \<and> b < v
                 \<and> (\<forall>j<i. below (metric_of metric ((item # rs) ! j)) v)
                 \<and> (\<forall>j<length (item # rs). at_most (metric_of metric ((item # rs) ! j)) v)"
        by blast
      with run show ?thesis by blast
    next
      assume "\<exists>i<length rs. \<exists>v'. r = (fst (rs ! i), Some v') \<and> metric_of metric (rs ! i) = Some v'
                 \<and> v < v'
                 \<and> (\<forall>j<i. below (metric_of metric (rs ! j)) v')
                 \<and> (\<forall>j<length rs. at_most (metric_of metric (rs ! j)) v')"
      then obtain i v' where i: "i < length rs" "r = (fst (rs ! i), Some v')"
        "metric_of metric (rs ! i) = Some v'" "v < v'"
        "\<forall>j<i. below (metric_of metric (rs ! j)) v'"
        "\<forall>j<length rs. at_most (metric_of metric (rs ! j)) v'" by blast
      have bel: "\<forall>j<Suc i. below (metric_of metric ((item # rs) ! j)) v'"
      proof (intro allI impI)
        fix j assume "j < Suc i"
        then show "below (metric_of metric ((item # rs) ! j)) v'"
          using i(4,5) by (cases j) (simp_all add: item x xv below_simps)
      qed
      have all: "\<forall>j<length (item # rs). at_most (metric_of metric ((item # rs) ! j)) v'"
      proof (intro allI impI)
        fix j assume "j < length (item # rs)"
        then show "at_most (metric_of metric ((item # rs) ! j)) v'"
          using i(4,6) by (cases j) (simp_all add: item x xv at_most_simps)
      qed
      have "Suc i < length (item # rs) \<and> r = (fst ((item # rs) ! Suc i), Some v')
              \<and> metric_of metric ((item # rs) ! Suc i) = Some v' \<and> b < v'
              \<and> (\<forall>j<Suc i. below (metric_of metric ((item # rs) ! j)) v')
              \<and> (\<forall>j<length (item # rs). at_most (metric_of metric ((item # rs) ! j)) v')"
        using i(1,2,3,4) bv bel all by simp
      then have "\<exists>k<length (item # rs). \<exists>v. r = (fst ((item # rs) ! k), Some v)
                 \<and> metric_of metric ((item # rs) ! k) = Some v \<and> b < v
                 \<and> (\<forall>j<k. below (metric_of metric ((item # rs) ! j)) v)
                 \<and> (\<forall>j<length (item # rs). at_most (metric_of metric ((item # rs) ! j)) v)"
        by blast
      with run show ?thesis by blast
    qed
  next
    case False
    then have xb: "at_most x b" by (rule not_float_less_at_most)
    from Cons.IH[OF rest, of bn b] obtain r where
      r: "max_by_metric metric rs (Some (bn, Some b)) = Inr (Some r)"
      and d: "(r = (bn, Some b) \<and> (\<forall>j<length rs. at_most (metric_of metric (rs ! j)) b))
            \<or> (\<exists>i<length rs. \<exists>v. r = (fst (rs ! i), Some v) \<and> metric_of metric (rs ! i) = Some v
                 \<and> b < v
                 \<and> (\<forall>j<i. below (metric_of metric (rs ! j)) v)
                 \<and> (\<forall>j<length rs. at_most (metric_of metric (rs ! j)) v))"
      by blast
    have run: "max_by_metric metric (item # rs) (Some (bn, Some b)) = Inr (Some r)"
      using r False by (simp add: item x)
    from d show ?thesis
    proof
      assume a: "r = (bn, Some b) \<and> (\<forall>j<length rs. at_most (metric_of metric (rs ! j)) b)"
      have all: "\<forall>j<length (item # rs). at_most (metric_of metric ((item # rs) ! j)) b"
      proof (intro allI impI)
        fix j assume "j < length (item # rs)"
        then show "at_most (metric_of metric ((item # rs) ! j)) b"
          using a xb by (cases j) (simp_all add: item x)
      qed
      with a run show ?thesis by blast
    next
      assume "\<exists>i<length rs. \<exists>v. r = (fst (rs ! i), Some v) \<and> metric_of metric (rs ! i) = Some v
                 \<and> b < v
                 \<and> (\<forall>j<i. below (metric_of metric (rs ! j)) v)
                 \<and> (\<forall>j<length rs. at_most (metric_of metric (rs ! j)) v)"
      then obtain i v where i: "i < length rs" "r = (fst (rs ! i), Some v)"
        "metric_of metric (rs ! i) = Some v" "b < v"
        "\<forall>j<i. below (metric_of metric (rs ! j)) v"
        "\<forall>j<length rs. at_most (metric_of metric (rs ! j)) v" by blast
      have bel: "\<forall>j<Suc i. below (metric_of metric ((item # rs) ! j)) v"
      proof (intro allI impI)
        fix j assume "j < Suc i"
        then show "below (metric_of metric ((item # rs) ! j)) v"
          using i(5) at_most_below[OF xb i(4)] by (cases j) (simp_all add: item x)
      qed
      have all: "\<forall>j<length (item # rs). at_most (metric_of metric ((item # rs) ! j)) v"
      proof (intro allI impI)
        fix j assume "j < length (item # rs)"
        then show "at_most (metric_of metric ((item # rs) ! j)) v"
          using i(6) below_at_most[OF at_most_below[OF xb i(4)]]
          by (cases j) (simp_all add: item x)
      qed
      have "Suc i < length (item # rs) \<and> r = (fst ((item # rs) ! Suc i), Some v)
              \<and> metric_of metric ((item # rs) ! Suc i) = Some v \<and> b < v
              \<and> (\<forall>j<Suc i. below (metric_of metric ((item # rs) ! j)) v)
              \<and> (\<forall>j<length (item # rs). at_most (metric_of metric ((item # rs) ! j)) v)"
        using i(1,2,3,4) bel all by simp
      then have "\<exists>k<length (item # rs). \<exists>v. r = (fst ((item # rs) ! k), Some v)
                 \<and> metric_of metric ((item # rs) ! k) = Some v \<and> b < v
                 \<and> (\<forall>j<k. below (metric_of metric ((item # rs) ! j)) v)
                 \<and> (\<forall>j<length (item # rs). at_most (metric_of metric ((item # rs) ! j)) v)"
        by blast
      with run show ?thesis by blast
    qed
  qed
qed

lemma max_by_metric_first:
  assumes "\<forall>item\<in>set rs. map_of (snd item) metric \<noteq> None" and "rs \<noteq> []"
  shows "\<exists>i<length rs.
           max_by_metric metric rs None = Inr (Some (fst (rs ! i), metric_of metric (rs ! i)))
           \<and> (if metric_of metric (rs ! 0) = None then i = 0
              else \<exists>v. metric_of metric (rs ! i) = Some v
                   \<and> (\<forall>j<length rs. at_most (metric_of metric (rs ! j)) v)
                   \<and> (\<forall>j<i. below (metric_of metric (rs ! j)) v))"
proof -
  from assms(2) obtain item rest where rs: "rs = item # rest" by (cases rs) auto
  obtain name ms where item: "item = (name, ms)" by (cases item)
  from assms(1) obtain x where x: "map_of ms metric = Some x" by (auto simp: rs item)
  have rest: "\<forall>item\<in>set rest. map_of (snd item) metric \<noteq> None" using assms(1) by (simp add: rs)
  show ?thesis
  proof (cases x)
    case None
    have "max_by_metric metric rs None = Inr (Some (name, None))"
      using max_by_metric_nan[OF rest, of name] by (simp add: rs item x None)
    then have "0 < length rs
         \<and> max_by_metric metric rs None = Inr (Some (fst (rs ! 0), metric_of metric (rs ! 0)))
         \<and> (if metric_of metric (rs ! 0) = None then (0::nat) = 0
              else \<exists>v. metric_of metric (rs ! 0) = Some v
                   \<and> (\<forall>j<length rs. at_most (metric_of metric (rs ! j)) v)
                   \<and> (\<forall>j<0. below (metric_of metric (rs ! j)) v))"
      by (simp add: rs item x None)
    then show ?thesis by blast
  next
    case (Some v)
    have step: "max_by_metric metric rs None = max_by_metric metric rest (Some (name, Some v))"
      by (simp add: rs item x Some)
    have v0: "metric_of metric (rs ! 0) = Some v" by (simp add: rs item x Some)
    from max_by_metric_best[OF rest, of name v] obtain r where
      r: "max_by_metric metric rest (Some (name, Some v)) = Inr (Some r)"
      and d: "(r = (name, Some v) \<and> (\<forall>j<length rest. at_most (metric_of metric (rest ! j)) v))
            \<or> (\<exists>i<length rest. \<exists>v'. r = (fst (rest ! i), Some v')
                 \<and> metric_of metric (rest ! i) = Some v' \<and> v < v'
                 \<and> (\<forall>j<i. below (metric_of metric (rest ! j)) v')
                 \<and> (\<forall>j<length rest. at_most (metric_of metric (rest ! j)) v'))"
      by blast
    from d show ?thesis
    proof
      assume a: "r = (name, Some v) \<and> (\<forall>j<length rest. at_most (metric_of metric (rest ! j)) v)"
      have all: "\<forall>j<length rs. at_most (metric_of metric (rs ! j)) v"
      proof (intro allI impI)
        fix j assume "j < length rs"
        then show "at_most (metric_of metric (rs ! j)) v"
          using a by (cases j) (simp_all add: rs item x Some at_most_simps)
      qed
      have "0 < length rs
         \<and> max_by_metric metric rs None = Inr (Some (fst (rs ! 0), metric_of metric (rs ! 0)))
         \<and> (if metric_of metric (rs ! 0) = None then (0::nat) = 0
              else \<exists>v. metric_of metric (rs ! 0) = Some v
                   \<and> (\<forall>j<length rs. at_most (metric_of metric (rs ! j)) v)
                   \<and> (\<forall>j<0. below (metric_of metric (rs ! j)) v))"
        using a step r all v0 by (simp add: rs item)
      then show ?thesis by blast
    next
      assume "\<exists>i<length rest. \<exists>v'. r = (fst (rest ! i), Some v')
                 \<and> metric_of metric (rest ! i) = Some v' \<and> v < v'
                 \<and> (\<forall>j<i. below (metric_of metric (rest ! j)) v')
                 \<and> (\<forall>j<length rest. at_most (metric_of metric (rest ! j)) v')"
      then obtain i v' where i: "i < length rest" "r = (fst (rest ! i), Some v')"
        "metric_of metric (rest ! i) = Some v'" "v < v'"
        "\<forall>j<i. below (metric_of metric (rest ! j)) v'"
        "\<forall>j<length rest. at_most (metric_of metric (rest ! j)) v'" by blast
      have bel: "\<forall>j<Suc i. below (metric_of metric (rs ! j)) v'"
      proof (intro allI impI)
        fix j assume "j < Suc i"
        then show "below (metric_of metric (rs ! j)) v'"
          using i(4,5) by (cases j) (simp_all add: rs item x Some below_simps)
      qed
      have all: "\<forall>j<length rs. at_most (metric_of metric (rs ! j)) v'"
      proof (intro allI impI)
        fix j assume "j < length rs"
        then show "at_most (metric_of metric (rs ! j)) v'"
          using i(4,6) by (cases j) (simp_all add: rs item x Some at_most_simps)
      qed
      have "Suc i < length rs
         \<and> max_by_metric metric rs None
             = Inr (Some (fst (rs ! Suc i), metric_of metric (rs ! Suc i)))
         \<and> (if metric_of metric (rs ! 0) = None then Suc i = 0
              else \<exists>v. metric_of metric (rs ! Suc i) = Some v
                   \<and> (\<forall>j<length rs. at_most (metric_of metric (rs ! j)) v)
                   \<and> (\<forall>j<Suc i. below (metric_of metric (rs ! j)) v))"
        using i(1,2,3) step r bel all v0 by (simp add: rs)
      then show ?thesis by blast
    qed
  qed
qed

lemma recorded_lookup:
  assumes "recorded t" and "i < length (results t)"
  shows "map_of (models t) (fst (results t ! i)) = Some (snd (models t ! i))"
proof -
  have len: "length (models t) = length (results t)"
    using assms(1) unfolding recorded_def by (metis length_map)
  have key: "fst (models t ! i) = fst (results t ! i)"
    using assms len unfolding recorded_def by (metis nth_map)
  have "distinct (map fst (models t))" using assms(1) by (simp add: recorded_def)
  moreover have "models t ! i \<in> set (models t)" using assms(2) len by simp
  ultimately show ?thesis using key by (metis map_of_is_SomeI prod.collapse)
qed

lemma recorded_new_trainer: "recorded new_trainer"
  by (simp add: recorded_def new_trainer_def)

lemma train_and_record_Inr:
  assumes "train_and_record sk name fit_estimator t X_train y_train X_test y_test = Inr (m, ms, t')"
  shows "t' = t\<lparr>models := AList.update name m (models t),
                 results := AList.update name ms (results t)\<rparr>"
    and "map fst ms = recorded_metrics"
  using assms
  by (auto simp: train_and_record_def calculate_metrics_def recorded_metrics_def Let_def
      split: sum.splits if_splits)

lemma recorded_train_and_record:
  assumes "recorded t"
    and "train_and_record sk name fit_estimator t X_train y_train X_test y_test = Inr (m, ms, t')"
  shows "recorded t'"
  using assms(1)
  by (auto simp: train_and_record_Inr(1)[OF assms(2)] recorded_def update_keys distinct_update
        image_iff dest: arg_cong[where f=set])

lemma first_maximum_selected:
  assumes "recorded t" and "results t \<noteq> []"
    and "\<forall>item\<in>set (results t). map_of (snd item) metric \<noteq> None"
  shows "\<exists>i<length (results t).
           select_best_model t metric = Inr (snd (models t ! i), fst (results t ! i))
           \<and> map_of (models t) (fst (results t ! i)) = Some (snd (models t ! i))
           \<and> (if metric_of metric (results t ! 0) = None then i = 0
              else \<exists>v. metric_of metric (results t ! i) = Some v
                   \<and> (\<forall>j<length (results t). at_most (metric_of metric (results t ! j)) v)
                   \<and> (\<forall>j<i. below (metric_of metric (results t ! j)) v))"
proof -
  from max_by_metric_first[OF assms(3) assms(2)] obtain i where i: "i < length (results t)"
    "max_by_metric metric (results t) None
       = Inr (Some (fst (results t ! i), metric_of metric (results t ! i)))"
    "if metric_of metric (results t ! 0) = None then i = 0
     else \<exists>v. metric_of metric (results t ! i) = Some v
          \<and> (\<forall>j<length (results t). at_most (metric_of metric (results t ! j)) v)
          \<and> (\<forall>j<i. below (metric_of metric (results t ! j)) v)"
    by blast
  have "select_best_model t metric = Inr (snd (models t ! i), fst (results t ! i))"
    using i(2) recorded_lookup[OF assms(1) i(1)] by (simp add: select_best_model_def)
  with i(1,3) recorded_lookup[OF assms(1) i(1)] show ?thesis by blast
qed



subsection \<open>The stub estimators\<close>

lemma observed_simps:
  "observed [] = []"
  "observed (None # cs) = observed cs"
  "observed (Some v # cs) = v # observed cs"
  by (simp_all add: observed_def List.map_filter_simps)

lemma stub_metrics_lr:
  "calculate_metrics [True, False] [True, True] [0.9, 0.9]
   = Inr [(''accuracy'', Some (1 / 2)), (''precision'', Some (1 / 2)), (''recall'', Some 1),
          (''f1_score'', Some (2 / 3)), (''roc_auc'', Some (1 / 2))]"
  by (simp add: calculate_metrics_def roc_auc_score_def accuracy_score_def precision_score_def
        recall_score_def f1_score_def true_positives_def zero_division_def Let_def)

lemma stub_metrics_rf:
  "calculate_metrics [True, False] [False, False] [0.1, 0.1]
   = Inr [(''accuracy'', Some (1 / 2)), (''precision'', Some 0), (''recall'', Some 0),
          (''f1_score'', Some 0), (''roc_auc'', Some (1 / 2))]"
  by (simp add: calculate_metrics_def roc_auc_score_def accuracy_score_def precision_score_def
        recall_score_def f1_score_def true_positives_def zero_division_def Let_def)

lemma stub_cv:
  "np_mean [Some 0.7, Some 0.9] = Some (mean [0.7, 0.9])"
  "np_std [Some 0.7, Some 0.9] = Some (std [0.7, 0.9])"
  "np_mean [None, Some 0.9] = None"
  "np_std [None, Some 0.9] = None"
  by (simp_all add: np_mean_def np_std_def observed_simps)

lemma stub_train_lr:
  assumes "rows X_test = [r1, r2]"
  shows "train_logistic_regression (stub_sklearn (\<lambda>X y. Inr 1) rf_fit) new_trainer X_train y_train
           X_test [Some 1, Some 0]
         = Inr (1, lr_metrics, lr_trainer)"
  by (simp add: train_logistic_regression_def train_and_record_def stub_sklearn_def assms
        binary_label_def stub_metrics_lr stub_cv new_trainer_def lr_metrics_def lr_trainer_def
        Let_def)

lemma stub_train_rf:
  assumes "rows X_test = [r1, r2]"
  shows "train_random_forest (stub_sklearn lr_fit (\<lambda>X y. Inr 2)) lr_trainer X_train y_train
           X_test [Some 1, Some 0]
         = Inr (2, rf_metrics, both_trainer)"
  by (simp add: train_random_forest_def train_and_record_def stub_sklearn_def assms
        binary_label_def stub_metrics_rf stub_cv rf_metrics_def lr_trainer_def both_trainer_def
        Let_def)

lemma stub_train_lr_fails:
  "train_logistic_regression (stub_sklearn (\<lambda>X y. Inl ModelTrainingFailure) rf_fit) t X_train
     y_train X_test y_test = Inl ModelTrainingFailure"
  by (simp add: train_logistic_regression_def train_and_record_def stub_sklearn_def)

lemma stub_train_rf_fails:
  "train_random_forest (stub_sklearn lr_fit (\<lambda>X y. Inl ModelTrainingFailure)) t X_train
     y_train X_test y_test = Inl ModelTrainingFailure"
  by (simp add: train_random_forest_def train_and_record_def stub_sklearn_def)

lemma stub_select: "select_best_model both_trainer ''roc_auc'' = Inr (1, ''logistic_regression'')"
  by (simp add: select_best_model_def both_trainer_def lr_metrics_def rf_metrics_def
        float_less_simps)





subsection \<open>Errors of the selection\<close>

lemma carries_metric:
  assumes "map fst ms = recorded_metrics"
  shows "(map_of ms metric = None) = (metric \<notin> set recorded_metrics)"
  using assms by (metis map_of_eq_None_iff set_map)

lemma results_update_keys:
  assumes "\<forall>item\<in>set rs. map fst (snd item) = recorded_metrics"
    and "map fst ms = recorded_metrics"
  shows "\<forall>item\<in>set (AList.update name ms rs). map fst (snd item) = recorded_metrics"
proof -
  have "set (AList.update name ms rs) \<subseteq> insert (name, ms) (set rs)"
    by (induction rs) auto
  then show ?thesis using assms by auto
qed

lemma train_and_record_keys:
  assumes "recorded t \<and> (\<forall>item\<in>set (results t). map fst (snd item) = recorded_metrics)"
    and "train_and_record sk name fit_estimator t X_train y_train X_test y_test = Inr (m, ms, t')"
  shows "recorded t' \<and> (\<forall>item\<in>set (results t'). map fst (snd item) = recorded_metrics)"
proof
  show "recorded t'" using recorded_train_and_record[OF assms(1)[THEN conjunct1] assms(2)] .
  have "results t' = AList.update name ms (results t)"
    by (simp add: train_and_record_Inr(1)[OF assms(2)])
  then show "\<forall>item\<in>set (results t'). map fst (snd item) = recorded_metrics"
    using results_update_keys[OF assms(1)[THEN conjunct2] train_and_record_Inr(2)[OF assms(2)]]
    by simp
qed

lemma after_call_keys:
  assumes "recorded t \<and> (\<forall>item\<in>set (results t). map fst (snd item) = recorded_metrics)"
  shows "recorded (after_call sk t c)
         \<and> (\<forall>item\<in>set (results (after_call sk t c)). map fst (snd item) = recorded_metrics)"
proof (cases c)
  case (TrainLogisticRegression X_train y_train X_test y_test)
  show ?thesis
  proof (cases "train_logistic_regression sk t X_train y_train X_test y_test")
    case (Inl e)
    then show ?thesis using assms by (simp add: after_call_def TrainLogisticRegression)
  next
    case (Inr res)
    obtain m ms t' where res: "res = (m, ms, t')" by (cases res)
    from Inr have "train_and_record sk ''logistic_regression'' (LogisticRegression_fit sk) t
                     X_train y_train X_test y_test = Inr (m, ms, t')"
      by (simp add: train_logistic_regression_def res)
    from train_and_record_keys[OF assms this] show ?thesis
      by (simp add: after_call_def TrainLogisticRegression Inr res)
  qed
next
  case (TrainRandomForest X_train y_train X_test y_test)
  show ?thesis
  proof (cases "train_random_forest sk t X_train y_train X_test y_test")
    case (Inl e)
    then show ?thesis using assms by (simp add: after_call_def TrainRandomForest)
  next
    case (Inr res)
    obtain m ms t' where res: "res = (m, ms, t')" by (cases res)
    from Inr have "train_and_record sk ''random_forest'' (RandomForestClassifier_fit sk) t
                     X_train y_train X_test y_test = Inr (m, ms, t')"
      by (simp add: train_random_forest_def res)
    from train_and_record_keys[OF assms this] show ?thesis
      by (simp add: after_call_def TrainRandomForest Inr res)
  qed
qed

lemma foldl_after_call_keys:
  assumes "recorded t \<and> (\<forall>item\<in>set (results t). map fst (snd item) = recorded_metrics)"
  shows "recorded (foldl (after_call sk) t calls)
         \<and> (\<forall>item\<in>set (results (foldl (after_call sk) t calls)).
               map fst (snd item) = recorded_metrics)"
  using assms
proof (induction calls arbitrary: t)
  case Nil
  then show ?case by simp
next
  case (Cons c calls)
  from Cons.IH[OF after_call_keys[OF Cons.prems, of sk c]] show ?case by simp
qed

lemma trainer_after_keys:
  "recorded (trainer_after sk calls)"
  "\<forall>item\<in>set (results (trainer_after sk calls)). map fst (snd item) = recorded_metrics"
proof -
  have "recorded (new_trainer :: 'a ModelTrainer)
        \<and> (\<forall>item\<in>set (results (new_trainer :: 'a ModelTrainer)).
              map fst (snd item) = recorded_metrics)"
    by (simp add: recorded_new_trainer) (simp add: new_trainer_def)
  from foldl_after_call_keys[OF this, of sk calls]
  show "recorded (trainer_after sk calls)"
    "\<forall>item\<in>set (results (trainer_after sk calls)). map fst (snd item) = recorded_metrics"
    by (simp_all add: trainer_after_def)
qed

lemma select_best_model_unknown_iff:
  assumes "results t \<noteq> []"
  shows "(select_best_model t metric = Inl UnknownMetricError)
         = (\<exists>item\<in>set (results t). map_of (snd item) metric = None)"
proof
  assume "select_best_model t metric = Inl UnknownMetricError"
  then have "max_by_metric metric (results t) None = Inl UnknownMetricError"
    by (auto simp: select_best_model_def split: sum.splits option.splits prod.splits)
  then show "\<exists>item\<in>set (results t). map_of (snd item) metric = None"
    by (simp add: max_by_metric_fails_iff)
next
  assume "\<exists>item\<in>set (results t). map_of (snd item) metric = None"
  then have "max_by_metric metric (results t) None = Inl UnknownMetricError"
    by (simp add: max_by_metric_fails_iff)
  then show "select_best_model t metric = Inl UnknownMetricError"
    by (simp add: select_best_model_def)
qed

text \<open>
  Claim C5. With no recorded result \<open>select_best_model\<close> fails with
  NoModelsTrainedError. A trainer that the program builds, which is a new trainer after
  any calls of the two training methods, holds the same seven metrics for every recorded
  model. So with at least one recorded result the selection fails with
  UnknownMetricError if and only if no recorded result carries the named metric, and it
  succeeds as soon as one recorded result carries it.
\<close>

theorem select_best_model_errors:
  "(results t = [] \<longrightarrow> select_best_model t metric = Inl NoModelsTrainedError)
   \<and> (\<forall>item\<in>set (results (trainer_after sk calls)). map fst (snd item) = recorded_metrics)
   \<and> (results (trainer_after sk calls) \<noteq> [] \<longrightarrow>
        (select_best_model (trainer_after sk calls) metric = Inl UnknownMetricError)
        = (\<forall>item\<in>set (results (trainer_after sk calls)). map_of (snd item) metric = None))
   \<and> ((\<exists>item\<in>set (results (trainer_after sk calls)). map_of (snd item) metric \<noteq> None)
        \<longrightarrow> (\<exists>m name. select_best_model (trainer_after sk calls) metric = Inr (m, name)))"
proof -
  let ?T = "trainer_after sk calls"
  note keys = trainer_after_keys[of sk calls]
  have lacks: "(map_of (snd item) metric = None) = (metric \<notin> set recorded_metrics)"
    if "item \<in> set (results ?T)" for item
    using carries_metric keys(2) that by blast
  have one: "results t = [] \<longrightarrow> select_best_model t metric = Inl NoModelsTrainedError"
    by (simp add: select_best_model_def)
  have two: "results ?T \<noteq> [] \<longrightarrow>
        (select_best_model ?T metric = Inl UnknownMetricError)
        = (\<forall>item\<in>set (results ?T). map_of (snd item) metric = None)"
  proof
    assume ne: "results ?T \<noteq> []"
    then obtain item0 where item0: "item0 \<in> set (results ?T)" by (cases "results ?T") auto
    have "(\<exists>item\<in>set (results ?T). map_of (snd item) metric = None)
          = (\<forall>item\<in>set (results ?T). map_of (snd item) metric = None)"
      using lacks item0 by blast
    then show "(select_best_model ?T metric = Inl UnknownMetricError)
        = (\<forall>item\<in>set (results ?T). map_of (snd item) metric = None)"
      by (simp add: select_best_model_unknown_iff[OF ne])
  qed
  have three: "(\<exists>item\<in>set (results ?T). map_of (snd item) metric \<noteq> None)
        \<longrightarrow> (\<exists>m name. select_best_model ?T metric = Inr (m, name))"
  proof
    assume "\<exists>item\<in>set (results ?T). map_of (snd item) metric \<noteq> None"
    then obtain item0 where item0: "item0 \<in> set (results ?T)" "map_of (snd item0) metric \<noteq> None"
      by blast
    then have ne: "results ?T \<noteq> []" by auto
    have "metric \<in> set recorded_metrics" using lacks[OF item0(1)] item0(2) by simp
    then have all: "\<forall>item\<in>set (results ?T). map_of (snd item) metric \<noteq> None"
      using lacks by simp
    from first_maximum_selected[OF keys(1) ne all]
    show "\<exists>m name. select_best_model ?T metric = Inr (m, name)" by blast
  qed
  from one keys(2) two three show ?thesis by (intro conjI)
qed

text \<open>
  The theorem at a new trainer, and at the trainer after one training of the logistic
  regression, for a metric that is not computed and for one that is.
\<close>

theorem select_best_model_errors_witness:
  "select_best_model (trainer_after working_sklearn []) ''roc_auc'' = Inl NoModelsTrainedError
   \<and> trainer_after working_sklearn
       [TrainLogisticRegression (example_X 56) [Some 1, Some 0, Some 1, Some 0]
          example_batch [Some 1, Some 0]] = lr_trainer
   \<and> select_best_model lr_trainer ''auc'' = Inl UnknownMetricError
   \<and> (\<exists>m name. select_best_model lr_trainer ''roc_auc'' = Inr (m, name))"
proof -
  let ?calls = "[TrainLogisticRegression (example_X 56) [Some 1, Some 0, Some 1, Some 0]
                   example_batch [Some 1, Some 0]]"
  have r: "\<exists>r1 r2. rows example_batch = [r1, r2]" by (simp add: example_batch_def)
  then obtain r1 r2 where te: "rows example_batch = [r1, r2]" by blast
  have tr: "trainer_after working_sklearn ?calls = lr_trainer"
    using stub_train_lr[OF te, of "\<lambda>X y. Inr 2" "example_X 56" "[Some 1, Some 0, Some 1, Some 0]"]
    by (simp add: trainer_after_def after_call_def working_sklearn_def)
  have e: "results (trainer_after working_sklearn []) = []"
    by (simp add: trainer_after_def new_trainer_def)
  have a: "select_best_model (trainer_after working_sklearn []) ''roc_auc''
           = Inl NoModelsTrainedError"
    using select_best_model_errors[of "trainer_after working_sklearn []" "''roc_auc''",
            THEN conjunct1] e by simp
  have ne: "results lr_trainer \<noteq> []" by (simp add: lr_trainer_def)
  have b: "select_best_model lr_trainer ''auc'' = Inl UnknownMetricError"
    using select_best_model_errors[where sk = working_sklearn and calls = ?calls
            and metric = "''auc''", THEN conjunct2, THEN conjunct2, THEN conjunct1] ne
    by (simp add: tr) (simp add: lr_trainer_def lr_metrics_def)
  have c: "\<exists>m name. select_best_model lr_trainer ''roc_auc'' = Inr (m, name)"
    using select_best_model_errors[where sk = working_sklearn and calls = ?calls
            and metric = "''roc_auc''", THEN conjunct2, THEN conjunct2, THEN conjunct2]
    by (simp add: tr) (simp add: lr_trainer_def lr_metrics_def)
  from a tr b c show ?thesis by blast
qed

subsection \<open>Metric evaluator\<close>

text \<open>
  Claim C4, as stated, fails: with a single class in \<open>y_true\<close> the evaluator returns no
  metric at all, although the accuracy of the same inputs is well defined.
\<close>

theorem single_class_counterexample:
  "calculate_metrics [True, True] [True, False] [0.9, 0.4] = Inl DegenerateLabelsError
   \<and> accuracy_score [True, True] [True, False] = 1 / 2"
  by (simp add: calculate_metrics_def roc_auc_score_def accuracy_score_def)

text \<open>
  Claim C4, amended. When \<open>y_true\<close> holds only one class, \<open>roc_auc_score\<close> fails with
  DegenerateLabelsError, and the failure aborts the whole evaluation: \<open>calculate_metrics\<close>
  returns no dictionary (for label lists of equal length it fails with that same error),
  so accuracy, precision, recall and f1 are not returned, and the training method that
  called the evaluator fails as well.
\<close>

theorem single_class_aborts_all_metrics:
  assumes "True \<notin> set y_true \<or> False \<notin> set y_true"
  shows "roc_auc_score y_true y_pred_proba = Inl DegenerateLabelsError
         \<and> (\<forall>ms. calculate_metrics y_true y_pred y_pred_proba \<noteq> Inr ms)
         \<and> (length y_pred = length y_true
              \<longrightarrow> calculate_metrics y_true y_pred y_pred_proba = Inl DegenerateLabelsError)
         \<and> (y_true = map binary_label y_test
              \<longrightarrow> (\<exists>e. train_and_record sk name fit_estimator t X_train y_train X_test y_test = Inl e))"
proof -
  have roc: "roc_auc_score y_true p = Inl DegenerateLabelsError" for p
    using assms by (auto simp: roc_auc_score_def)
  have none: "calculate_metrics y_true yp p \<noteq> Inr ms" for yp p ms
    by (simp add: calculate_metrics_def roc)
  have "\<exists>e. train_and_record sk name fit_estimator t X_train y_train X_test y_test = Inl e"
    if "y_true = map binary_label y_test"
  proof -
    have "calculate_metrics (map binary_label y_test) yp p \<noteq> Inr ms" for yp p ms
      using none that by simp
    then show ?thesis
      by (auto simp: train_and_record_def Let_def split: sum.splits)
  qed
  then show ?thesis using roc none by (simp add: calculate_metrics_def)
qed

theorem single_class_witness:
  "roc_auc_score [True, True] [0.9, 0.4] = Inl DegenerateLabelsError
   \<and> calculate_metrics [True, True] [True, False] [0.9, 0.4] = Inl DegenerateLabelsError"
proof -
  have h: "True \<notin> set [True, True] \<or> False \<notin> set [True, True]" by simp
  note r = single_class_aborts_all_metrics[OF h, of "[0.9, 0.4]" "[True, False]"]
  have "length [True, False] = length [True, True]" by simp
  with r[THEN conjunct1] r[THEN conjunct2, THEN conjunct2, THEN conjunct1]
  show ?thesis by blast
qed

subsection \<open>Persistence of the preprocessor\<close>

text \<open>
  Claim C6. \<open>save\<close> dumps the whole preprocessor (feature lists and fitted state), and
  \<open>load\<close> from the same path returns it: the loaded object transforms every input
  exactly as the saved one does, errors included.
\<close>

theorem preprocessor_round_trip:
  "load path (save p path fs) = Inr (PreprocessorArtifact p)
   \<and> (case load path (save p path fs) of
        Inl e \<Rightarrow> False
      | Inr loaded \<Rightarrow> artifact_transform loaded X = transform p X)"
  by (simp add: load_def save_def joblib_load_def joblib_dump_def artifact_transform_def)

subsection \<open>Prediction endpoint\<close>

text \<open>
  Claim C8 does not hold of the code: when the model or the preprocessor is not loaded,
  the HTTPException with status 503 is raised inside the \<open>try\<close> block and caught by
  \<open>except Exception\<close>, and the caller receives status 500.
\<close>

theorem predict_unavailable_is_500:
  "predict sk str_of now \<lparr>app_model = None, app_preprocessor = pre\<rparr> input_data
     = Inl (HTTPException 500 (''Prediction failed: '' @ str_of (HTTPException 503 ''Model not available'')))
   \<and> predict sk str_of now \<lparr>app_model = m, app_preprocessor = None\<rparr> input_data
     = Inl (HTTPException 500 (''Prediction failed: '' @ str_of (HTTPException 503 ''Model not available'')))"
  by (simp add: predict_def predict_try_def split: option.splits)

subsection \<open>The fitted pipeline\<close>

lemma variance_zero:
  assumes "xs \<noteq> []" and "variance xs = 0" and "x \<in> set xs"
  shows "x = mean xs"
proof -
  have "sum_list (map (\<lambda>x. (x - mean xs)\<^sup>2) xs) = 0"
    using assms(1,2) by (simp add: variance_def)
  moreover have "\<forall>y\<in>set (map (\<lambda>x. (x - mean xs)\<^sup>2) xs). 0 \<le> y" by auto
  ultimately have "\<forall>y\<in>set (map (\<lambda>x. (x - mean xs)\<^sup>2) xs). y = 0"
    using sum_list_nonneg_eq_0_iff[of "map (\<lambda>x. (x - mean xs)\<^sup>2) xs"] by blast
  then have "(x - mean xs)\<^sup>2 = 0" using assms(3) by auto
  then show ?thesis by simp
qed

lemma median_constant:
  assumes "xs \<noteq> []" and "\<forall>x\<in>set xs. x = c"
  shows "median xs = c"
proof -
  have ne: "0 < length (sort xs)" using assms(1) by simp
  have all: "i < length (sort xs) \<Longrightarrow> sort xs ! i = c" for i
    using assms(2) by (metis nth_mem set_sort)
  have "length (sort xs) div 2 < length (sort xs)" using ne by simp
  moreover have "length (sort xs) div 2 - 1 < length (sort xs)" using ne by arith
  ultimately show ?thesis by (simp add: median_def Let_def all)
qed

lemma observed_mem: "v \<in> set (observed col) \<longleftrightarrow> Some v \<in> set col"
  by (force simp: observed_def List.map_filter_def image_iff)

lemma fit_numerical_Some:
  assumes "fit_numerical col = Some q"
  shows "observed col \<noteq> []"
    and "imputer_median q = median (observed col)"
    and "scaler_mean q = mean (map (impute (imputer_median q)) col)"
    and "scaler_std q = std (map (impute (imputer_median q)) col)"
    and "scaler_scale q = handle_zeros_in_scale (scaler_std q)"
  using assms by (auto simp: fit_numerical_def Let_def split: list.splits)

lemma fit_numerical_constant:
  assumes "fit_numerical col = Some q" and "scaler_std q = 0"
  shows "imputer_median q = scaler_mean q"
proof -
  let ?imp = "map (impute (imputer_median q)) col"
  note f = fit_numerical_Some[OF assms(1)]
  have colne: "col \<noteq> []" using f(1) by (auto simp: observed_def List.map_filter_def)
  have var0: "variance ?imp = 0" using assms(2) f(4) by (simp add: std_def)
  have "\<forall>v\<in>set (observed col). v = scaler_mean q"
  proof
    fix v assume "v \<in> set (observed col)"
    then have "Some v \<in> set col" by (simp add: observed_mem)
    then have "impute (imputer_median q) (Some v) \<in> set ?imp" by force
    then have "v \<in> set ?imp" by (simp add: impute_def)
    from variance_zero[OF _ var0 this] colne show "v = scaler_mean q" by (simp add: f(3))
  qed
  from median_constant[OF f(1) this] show ?thesis by (simp add: f(2))
qed

lemma kept_length:
  "length (concat (map (\<lambda>(n, st). case st of None \<Rightarrow> [] | Some q \<Rightarrow> [F n q]) (zip ns sts)))
     \<le> length sts"
proof (induction sts arbitrary: ns)
  case Nil
  then show ?case by simp
next
  case (Cons st sts)
  show ?case
  proof (cases ns)
    case Nil
    then show ?thesis by simp
  next
    case (Cons n ns')
    with Cons.IH[of ns'] show ?thesis by (cases st) auto
  qed
qed

lemma kept_all:
  assumes "length ns = length sts"
    and "length (concat (map (\<lambda>(n, st). case st of None \<Rightarrow> [] | Some q \<Rightarrow> [F n q]) (zip ns sts)))
           = length sts"
  shows "None \<notin> set sts"
  using assms
proof (induction ns sts rule: list_induct2)
  case Nil
  then show ?case by simp
next
  case (Cons n ns st sts)
  have le: "length (concat (map (\<lambda>(n, st). case st of None \<Rightarrow> [] | Some q \<Rightarrow> [F n q]) (zip ns sts)))
              \<le> length sts" by (rule kept_length)
  show ?case
  proof (cases st)
    case None
    with Cons.prems le show ?thesis by simp
  next
    case (Some q)
    with Cons show ?thesis by simp
  qed
qed

lemma kept_map:
  assumes "length ns = length sts" and "None \<notin> set sts"
  shows "concat (map (\<lambda>(n, st). case st of None \<Rightarrow> [] | Some q \<Rightarrow> [F n q]) (zip ns sts))
         = map (\<lambda>(n, st). F n (the st)) (zip ns sts)"
  using assms
proof (induction ns sts rule: list_induct2)
  case Nil
  then show ?case by simp
next
  case (Cons n ns st sts)
  then show ?case by (cases st) auto
qed

lemma transform_row_complete:
  assumes ln: "length (numerical f) = length (numerical_features p)"
    and lc: "length (categorical f) = length (categorical_features p)"
    and len: "length (transform_row p f cols r)
                = length (numerical_features p @ categorical_features p)"
  shows "None \<notin> set (numerical f) \<and> None \<notin> set (categorical f)"
proof -
  let ?A = "concat (map (\<lambda>(n, st). case st of None \<Rightarrow> []
                | Some q \<Rightarrow> [Some (transform_numerical q (cell_at cols r n))])
              (zip (numerical_features p) (numerical f)))"
  let ?B = "concat (map (\<lambda>(n, st). case st of None \<Rightarrow> []
                | Some m \<Rightarrow> [Some (impute m (cell_at cols r n))])
              (zip (categorical_features p) (categorical f)))"
  have a: "length ?A \<le> length (numerical f)" by (rule kept_length)
  have b: "length ?B \<le> length (categorical f)" by (rule kept_length)
  have "length ?A + length ?B = length (numerical f) + length (categorical f)"
    using len ln lc by (simp add: transform_row_def)
  with a b have "length ?A = length (numerical f)" "length ?B = length (categorical f)" by linarith+
  then show ?thesis
    using kept_all[OF ln[symmetric],
            where F = "\<lambda>n q. Some (transform_numerical q (cell_at cols r n))"]
          kept_all[OF lc[symmetric], where F = "\<lambda>n m. Some (impute m (cell_at cols r n))"]
    by blast
qed

lemma transform_row_eq:
  assumes ln: "length (numerical f) = length (numerical_features p)"
    and lc: "length (categorical f) = length (categorical_features p)"
    and "None \<notin> set (numerical f)" and "None \<notin> set (categorical f)"
  shows "transform_row p f cols r
         = map (\<lambda>(n, st). Some (transform_numerical (the st) (cell_at cols r n)))
             (zip (numerical_features p) (numerical f))
           @ map (\<lambda>(n, st). Some (impute (the st) (cell_at cols r n)))
               (zip (categorical_features p) (categorical f))"
  using assms by (simp add: transform_row_def kept_map)

lemma fit_Inr:
  assumes "fit p0 X = Inr p"
  shows "numerical_features p = numerical_features p0"
    and "categorical_features p = categorical_features p0"
    and "pipeline p = Some \<lparr>numerical = map (\<lambda>n. fit_numerical (column X n)) (numerical_features p0),
                           categorical = map (\<lambda>n. fit_categorical (column X n)) (categorical_features p0)\<rparr>"
  using assms by (auto simp: fit_def split: if_splits)

lemma transform_Inr:
  assumes "transform p Y = Inr out" and "pipeline p = Some f"
  shows "rows Y \<noteq> []"
    and "columns out = numerical_features p @ categorical_features p"
    and "rows out = map (transform_row p f (columns Y)) (rows Y)"
    and "\<forall>r\<in>set (rows Y). length (transform_row p f (columns Y) r)
            = length (numerical_features p @ categorical_features p)"
  using assms by (auto simp: transform_def Let_def list_all_iff split: if_splits)

lemma transform_numerical_missing:
  assumes "fit_numerical col = Some q"
  shows "transform_numerical q None
         = (if scaler_std q = 0 then 0 else (imputer_median q - scaler_mean q) / scaler_std q)"
  using fit_numerical_constant[OF assms] fit_numerical_Some(5)[OF assms]
  by (simp add: transform_numerical_def impute_def handle_zeros_in_scale_def)

lemma most_frequent_step_Some:
  "foldl (\<lambda>best v. case best of None \<Rightarrow> Some v
            | Some b \<Rightarrow> if count_list xs b < count_list xs v then Some v else Some b)
     (Some b0) ys \<noteq> None"
  by (induction ys arbitrary: b0) auto

lemma most_frequent_Some: "xs \<noteq> [] \<Longrightarrow> most_frequent xs \<noteq> None"
proof -
  assume "xs \<noteq> []"
  then have "sort xs \<noteq> []" by (metis length_sort length_0_conv)
  then obtain y ys where "sort xs = y # ys" by (cases "sort xs") auto
  then show ?thesis by (simp add: most_frequent_def most_frequent_step_Some)
qed

lemma fit_numerical_observed: "observed col \<noteq> [] \<Longrightarrow> fit_numerical col \<noteq> None"
  by (auto simp: fit_numerical_def Let_def split: list.splits)

lemma transform_succeeds:
  assumes "fit p0 X = Inr p"
    and obs: "\<forall>n\<in>set (numerical_features p0 @ categorical_features p0). observed (column X n) \<noteq> []"
    and cols: "set (numerical_features p0 @ categorical_features p0) \<subseteq> set (columns Y)"
    and ne: "rows Y \<noteq> []"
  shows "\<exists>out. transform p Y = Inr out"
proof -
  define f where "f = \<lparr>numerical = map (\<lambda>n. fit_numerical (column X n)) (numerical_features p0),
                        categorical = map (\<lambda>n. fit_categorical (column X n)) (categorical_features p0)\<rparr>"
  note fi = fit_Inr[OF assms(1)]
  have pf: "pipeline p = Some f" using fi(3) by (simp add: f_def)
  have ln: "length (numerical f) = length (numerical_features p)"
    and lc: "length (categorical f) = length (categorical_features p)"
    by (simp_all add: f_def fi)
  have n1: "None \<notin> set (numerical f)"
    using obs fit_numerical_observed by (fastforce simp: f_def)
  have n2: "None \<notin> set (categorical f)"
  proof
    assume "None \<in> set (categorical f)"
    then obtain n where n: "n \<in> set (categorical_features p0)"
      "fit_categorical (column X n) = None"
      by (auto simp: f_def)
    then have "observed (column X n) \<noteq> []" using obs by simp
    from most_frequent_Some[OF this] n(2) show False by (simp add: fit_categorical_def)
  qed
  have "length (transform_row p f (columns Y) r)
          = length (numerical_features p @ categorical_features p)" for r
    by (simp add: transform_row_eq[OF ln lc n1 n2] ln lc)
  then show ?thesis using pf cols ne fi
    by (simp add: transform_def Let_def list_all_iff)
qed

subsection \<open>The example run\<close>

lemma example_clean:
  "clean_data (example_df a) = (example_df a)\<lparr>rows := [rows (example_df a) ! 0, rows (example_df a) ! 1,
      rows (example_df a) ! 3, rows (example_df a) ! 4]\<rparr>"
  by (simp add: clean_data_def example_df_def COLUMN_NAMES_def non_missing_def)

lemma example_split:
  "split_features_target (clean_data (example_df a)) ''target''
   = Inr (example_X a, [Some 1, Some 0, Some 1, Some 0])"
  by (subst example_clean)
     (simp add: split_features_target_def drop_column_def column_def cell_at_def
        example_df_def example_X_def COLUMN_NAMES_def)

lemma example_columns:
  "numerical_features HeartDiseasePreprocessor @ categorical_features HeartDiseasePreprocessor
   = [''age'', ''trestbps'', ''chol'', ''thalach'', ''oldpeak'',
      ''sex'', ''cp'', ''fbs'', ''restecg'', ''exang'', ''slope'', ''ca'', ''thal'']"
  by (simp add: HeartDiseasePreprocessor_def)

lemma example_fit_ok: "\<not> isl (fit HeartDiseasePreprocessor (example_X a))"
  by (simp add: fit_def example_columns) (simp add: example_X_def)

lemma example_observed:
  "\<forall>n\<in>set (numerical_features HeartDiseasePreprocessor @ categorical_features HeartDiseasePreprocessor).
     observed (column (example_X a) n) \<noteq> []"
  unfolding example_columns
  by (simp add: example_X_def column_def cell_at_def observed_simps)

lemma example_fit: "\<exists>p. fit HeartDiseasePreprocessor (example_X a) = Inr p"
  using example_fit_ok[of a] by (cases "fit HeartDiseasePreprocessor (example_X a)") auto

lemma example_transform:
  assumes "fit HeartDiseasePreprocessor (example_X a) = Inr p"
  shows "\<exists>g. transform p (example_X a)
              = Inr \<lparr>columns = numerical_features p @ categorical_features p,
                     rows = map g (rows (example_X a))\<rparr>"
proof -
  have "\<exists>Xt. transform p (example_X a) = Inr Xt"
  proof (rule transform_succeeds[OF assms example_observed])
    show "set (numerical_features HeartDiseasePreprocessor @ categorical_features HeartDiseasePreprocessor)
            \<subseteq> set (columns (example_X a))"
      unfolding example_columns by (simp add: example_X_def)
    show "rows (example_X a) \<noteq> []" by (simp add: example_X_def)
  qed
  then obtain Xt where Xt: "transform p (example_X a) = Inr Xt" ..
  from fit_Inr(3)[OF assms] obtain f where f: "pipeline p = Some f" by simp
  from transform_Inr(2,3)[OF Xt f]
  have "Xt = \<lparr>columns = numerical_features p @ categorical_features p,
              rows = map (transform_row p f (columns (example_X a))) (rows (example_X a))\<rparr>"
    by simp
  with Xt show ?thesis by blast
qed

subsection \<open>The training script\<close>

lemma main_success:
  assumes "read_csv raw_data_path = Inr df"
    and "split_features_target (clean_data df) ''target'' = Inr (X, y)"
    and "fit_transform HeartDiseasePreprocessor X = (Inr Xt, pre)"
    and "train_test_split sk Xt y = Inr (X_train, X_test, y_train, y_test)"
    and "train_logistic_regression sk new_trainer X_train y_train X_test y_test = Inr (m1, ms1, t1)"
    and "train_random_forest sk t1 X_train y_train X_test y_test = Inr (m2, ms2, t2)"
    and "select_best_model t2 ''roc_auc'' = Inr (bm, bn)"
  shows "main sk read_csv fs
         = \<lparr>outcome = Inr True, run_preprocessor = pre, run_trainer = t2,
            run_files = save_model bm model_path (save pre preprocessor_path fs)\<rparr>"
  using assms by (simp add: main_def Let_def)

lemma main_lr_failure:
  assumes "read_csv raw_data_path = Inr df"
    and "split_features_target (clean_data df) ''target'' = Inr (X, y)"
    and "fit_transform HeartDiseasePreprocessor X = (Inr Xt, pre)"
    and "train_test_split sk Xt y = Inr (X_train, X_test, y_train, y_test)"
    and "train_logistic_regression sk new_trainer X_train y_train X_test y_test = Inl e"
  shows "main sk read_csv fs
         = \<lparr>outcome = Inl e, run_preprocessor = pre, run_trainer = new_trainer,
            run_files = save pre preprocessor_path fs\<rparr>"
  using assms by (simp add: main_def Let_def)

lemma main_rf_failure:
  assumes "read_csv raw_data_path = Inr df"
    and "split_features_target (clean_data df) ''target'' = Inr (X, y)"
    and "fit_transform HeartDiseasePreprocessor X = (Inr Xt, pre)"
    and "train_test_split sk Xt y = Inr (X_train, X_test, y_train, y_test)"
    and "train_logistic_regression sk new_trainer X_train y_train X_test y_test = Inr (m1, ms1, t1)"
    and "train_random_forest sk t1 X_train y_train X_test y_test = Inl e"
  shows "main sk read_csv fs
         = \<lparr>outcome = Inl e, run_preprocessor = pre, run_trainer = t1,
            run_files = save pre preprocessor_path fs\<rparr>"
  using assms by (simp add: main_def Let_def)

lemma main_preprocessor:
  assumes "read_csv raw_data_path = Inr df"
    and "split_features_target (clean_data df) ''target'' = Inr (X, y)"
  shows "run_preprocessor (main sk read_csv fs) = snd (fit_transform HeartDiseasePreprocessor X)"
  using assms
  by (auto simp: main_def Let_def split: sum.splits prod.splits)

lemma main_success_trained:
  assumes "read_csv raw_data_path = Inr df"
    and "split_features_target (clean_data df) ''target'' = Inr (X, y)"
    and "fit_transform HeartDiseasePreprocessor X = (Inr Xt, pre)"
    and "train_test_split sk Xt y = Inr (X_train, X_test, y_train, y_test)"
    and "outcome (main sk read_csv fs) = Inr True"
  shows "\<exists>m1 ms1 t1 m2 ms2 t2.
           train_logistic_regression sk new_trainer X_train y_train X_test y_test = Inr (m1, ms1, t1)
           \<and> train_random_forest sk t1 X_train y_train X_test y_test = Inr (m2, ms2, t2)
           \<and> run_trainer (main sk read_csv fs) = t2"
  using assms
  by (auto simp: main_def Let_def split: sum.splits prod.splits)

subsection \<open>The example run with stub estimators\<close>

lemma example_prepared:
  assumes "fit HeartDiseasePreprocessor (example_X a) = Inr p"
  shows "\<exists>Xt X_train X_test r1 r2.
           fit_transform HeartDiseasePreprocessor (example_X a) = (Inr Xt, p)
           \<and> train_test_split (stub_sklearn lr_fit rf_fit) Xt [Some 1, Some 0, Some 1, Some 0]
               = Inr (X_train, X_test, [Some 1, Some 0], [Some 1, Some 0])
           \<and> rows X_test = [r1, r2]"
proof -
  from example_transform[OF assms] obtain g where
    g: "transform p (example_X a)
        = Inr \<lparr>columns = numerical_features p @ categorical_features p,
               rows = map g (rows (example_X a))\<rparr>" ..
  let ?Xt = "\<lparr>columns = numerical_features p @ categorical_features p,
               rows = map g (rows (example_X a))\<rparr>"
  have ft: "fit_transform HeartDiseasePreprocessor (example_X a) = (Inr ?Xt, p)"
    by (simp add: fit_transform_def assms g)
  have sp: "train_test_split (stub_sklearn lr_fit rf_fit) ?Xt [Some 1, Some 0, Some 1, Some 0]
            = Inr (?Xt\<lparr>rows := take_positions [0, 1] (rows ?Xt)\<rparr>,
                   ?Xt\<lparr>rows := take_positions [2, 3] (rows ?Xt)\<rparr>,
                   [Some 1, Some 0], [Some 1, Some 0])"
    by (simp add: train_test_split_def stub_sklearn_def take_positions_def)
  have "\<exists>r1 r2. rows (?Xt\<lparr>rows := take_positions [2, 3] (rows ?Xt)\<rparr>) = [r1, r2]"
    by (simp add: take_positions_def example_X_def)
  with ft sp show ?thesis by blast
qed

lemma example_run:
  assumes "fit HeartDiseasePreprocessor (example_X a) = Inr p"
  shows "main working_sklearn (example_csv a) fs
         = \<lparr>outcome = Inr True, run_preprocessor = p, run_trainer = both_trainer,
            run_files = save_model 1 model_path (save p preprocessor_path fs)\<rparr>"
proof -
  from example_prepared[OF assms, of "\<lambda>X y. Inr 1" "\<lambda>X y. Inr 2"]
  obtain Xt X_train X_test r1 r2 where
    ft: "fit_transform HeartDiseasePreprocessor (example_X a) = (Inr Xt, p)"
    and sp: "train_test_split (stub_sklearn (\<lambda>X y. Inr 1) (\<lambda>X y. Inr 2)) Xt
               [Some 1, Some 0, Some 1, Some 0]
             = Inr (X_train, X_test, [Some 1, Some 0], [Some 1, Some 0])"
    and te: "rows X_test = [r1, r2]"
    by blast
  show ?thesis
    unfolding working_sklearn_def
    by (rule main_success[OF _ example_split ft sp stub_train_lr[OF te] stub_train_rf[OF te]
          stub_select]) (simp add: example_csv_def)
qed

lemma example_run_lr_fails:
  assumes "fit HeartDiseasePreprocessor (example_X a) = Inr p"
  shows "main lr_failing_sklearn (example_csv a) fs
         = \<lparr>outcome = Inl ModelTrainingFailure, run_preprocessor = p,
            run_trainer = new_trainer, run_files = save p preprocessor_path fs\<rparr>"
proof -
  from example_prepared[OF assms, of "\<lambda>X y. Inl ModelTrainingFailure" "\<lambda>X y. Inr 2"]
  obtain Xt X_train X_test r1 r2 where
    ft: "fit_transform HeartDiseasePreprocessor (example_X a) = (Inr Xt, p)"
    and sp: "train_test_split (stub_sklearn (\<lambda>X y. Inl ModelTrainingFailure) (\<lambda>X y. Inr 2)) Xt
               [Some 1, Some 0, Some 1, Some 0]
             = Inr (X_train, X_test, [Some 1, Some 0], [Some 1, Some 0])"
    by blast
  show ?thesis
    unfolding lr_failing_sklearn_def
    by (rule main_lr_failure[OF _ example_split ft sp stub_train_lr_fails])
       (simp add: example_csv_def)
qed

lemma example_run_rf_fails:
  assumes "fit HeartDiseasePreprocessor (example_X a) = Inr p"
  shows "main rf_failing_sklearn (example_csv a) fs
         = \<lparr>outcome = Inl ModelTrainingFailure, run_preprocessor = p,
            run_trainer = lr_trainer, run_files = save p preprocessor_path fs\<rparr>"
proof -
  from example_prepared[OF assms, of "\<lambda>X y. Inr 1" "\<lambda>X y. Inl ModelTrainingFailure"]
  obtain Xt X_train X_test r1 r2 where
    ft: "fit_transform HeartDiseasePreprocessor (example_X a) = (Inr Xt, p)"
    and sp: "train_test_split (stub_sklearn (\<lambda>X y. Inr 1) (\<lambda>X y. Inl ModelTrainingFailure)) Xt
               [Some 1, Some 0, Some 1, Some 0]
             = Inr (X_train, X_test, [Some 1, Some 0], [Some 1, Some 0])"
    and te: "rows X_test = [r1, r2]"
    by blast
  show ?thesis
    unfolding rf_failing_sklearn_def
    by (rule main_rf_failure[OF _ example_split ft sp stub_train_lr[OF te] stub_train_rf_fails])
       (simp add: example_csv_def)
qed

subsection \<open>Selection with a NaN score\<close>



subsection \<open>Cleaning\<close>

lemma clean_data_idempotent: "clean_data (clean_data df) = clean_data df"
  by (simp add: clean_data_def Let_def)

lemma main_of_cleaned:
  assumes "read_a raw_data_path = Inr df_a" and "read_b raw_data_path = Inr df_b"
    and "clean_data df_b = clean_data df_a"
  shows "main sk read_a fs = main sk read_b fs"
  using assms by (simp add: main_def)

text \<open>
  Claim C10. \<open>clean_data\<close> keeps the columns, and keeps exactly the rows in which the
  number of cells that are not missing is at least half the number of the table's
  columns; the kept rows are unchanged, missing cells included, and in their order. The
  rows are dropped before any fitting or training: \<^verbatim>\<open>main\<close> uses the table it reads only
  through \<open>clean_data\<close>, so two data files with the same cleaned table give the same run
  (the same outcome, fitted preprocessor, trained models, results and files), whatever the
  dropped rows hold; and the preprocessor is fitted on the features of the cleaned table.
\<close>

theorem clean_data_keeps_half_observed_rows:
  "columns (clean_data df) = columns df
   \<and> rows (clean_data df)
       = filter (\<lambda>r. length (columns df) \<le> 2 * length (filter (\<lambda>c. c \<noteq> None) r)) (rows df)
   \<and> (read_a raw_data_path = Inr df \<and> read_b raw_data_path = Inr df_b
        \<and> clean_data df_b = clean_data df
        \<longrightarrow> main sk read_a fs = main sk read_b fs)
   \<and> (read_a raw_data_path = Inr df
        \<and> split_features_target (clean_data df) ''target'' = Inr (X, y)
        \<longrightarrow> run_preprocessor (main sk read_a fs) = snd (fit_transform HeartDiseasePreprocessor X))"
proof -
  have count: "(real (length (columns df)) * 0.5 \<le> real (non_missing r))
        = (length (columns df) \<le> 2 * length (filter (\<lambda>c. c \<noteq> None) r))" for r
    unfolding non_missing_def by (simp add: field_simps) linarith
  have one: "columns (clean_data df) = columns df" by (simp add: clean_data_def Let_def)
  have kept: "rows (clean_data df)
       = filter (\<lambda>r. real (length (columns df)) * 0.5 \<le> real (non_missing r)) (rows df)"
    by (simp add: clean_data_def Let_def)
  have two: "rows (clean_data df)
       = filter (\<lambda>r. length (columns df) \<le> 2 * length (filter (\<lambda>c. c \<noteq> None) r)) (rows df)"
    by (simp only: kept count)
  have three: "read_a raw_data_path = Inr df \<and> read_b raw_data_path = Inr df_b
        \<and> clean_data df_b = clean_data df
        \<longrightarrow> main sk read_a fs = main sk read_b fs"
    using main_of_cleaned[of read_a df read_b df_b sk fs] by blast
  have four: "read_a raw_data_path = Inr df
        \<and> split_features_target (clean_data df) ''target'' = Inr (X, y)
        \<longrightarrow> run_preprocessor (main sk read_a fs) = snd (fit_transform HeartDiseasePreprocessor X)"
    using main_preprocessor[of read_a df X y sk fs] by blast
  from one two three four show ?thesis by (intro conjI)
qed

text \<open>
  The theorem at the example: the third of the five rows has 6 of its 14 cells and is
  dropped; the fourth, which lacks its cholesterol value, is kept as it is; and the run
  on the data file is the run on the cleaned table. In a table of two columns, a row
  with one of its two cells is kept and a row with none is dropped.
\<close>

theorem clean_data_keeps_half_observed_rows_witness:
  "rows (clean_data (example_df 56))
     = [rows (example_df 56) ! 0, rows (example_df 56) ! 1, rows (example_df 56) ! 3,
        rows (example_df 56) ! 4]
   \<and> None \<in> set (rows (example_df 56) ! 3)
   \<and> rows (clean_data \<lparr>columns = [''age'', ''chol''],
                          rows = [[None, None], [Some 63, None], [Some 37, Some 250]]\<rparr>)
       = [[Some 63, None], [Some 37, Some 250]]
   \<and> main working_sklearn (example_csv 56) Map.empty
       = main working_sklearn (\<lambda>path. Inr (clean_data (example_df 56))) Map.empty
   \<and> run_preprocessor (main working_sklearn (example_csv 56) Map.empty)
       = snd (fit_transform HeartDiseasePreprocessor (example_X 56))"
proof -
  note t = clean_data_keeps_half_observed_rows[where df = "example_df 56"]
  have a: "rows (clean_data (example_df 56))
     = [rows (example_df 56) ! 0, rows (example_df 56) ! 1, rows (example_df 56) ! 3,
        rows (example_df 56) ! 4]"
    using t[THEN conjunct2, THEN conjunct1]
    by (simp add: example_df_def COLUMN_NAMES_def)
  have b: "None \<in> set (rows (example_df 56) ! 3)" by (simp add: example_df_def)
  have b2: "rows (clean_data \<lparr>columns = [''age'', ''chol''],
                          rows = [[None, None], [Some 63, None], [Some 37, Some 250]]\<rparr>)
       = [[Some 63, None], [Some 37, Some 250]]"
    using clean_data_keeps_half_observed_rows[where df = "\<lparr>columns = [''age'', ''chol''],
            rows = [[None, None], [Some 63, None], [Some 37, Some 250]]\<rparr>",
            THEN conjunct2, THEN conjunct1]
    by simp
  have r: "example_csv 56 raw_data_path = Inr (example_df 56)" by (simp add: example_csv_def)
  have c: "main working_sklearn (example_csv 56) Map.empty
       = main working_sklearn (\<lambda>path. Inr (clean_data (example_df 56))) Map.empty"
    using t[where read_a = "example_csv 56"
              and read_b = "\<lambda>path. Inr (clean_data (example_df 56))"
              and df_b = "clean_data (example_df 56)" and sk = working_sklearn
              and fs = Map.empty,
            THEN conjunct2, THEN conjunct2, THEN conjunct1] r
    by (simp add: clean_data_idempotent)
  have d: "run_preprocessor (main working_sklearn (example_csv 56) Map.empty)
       = snd (fit_transform HeartDiseasePreprocessor (example_X 56))"
    using t[where read_a = "example_csv 56" and X = "example_X 56"
              and y = "[Some 1, Some 0, Some 1, Some 0]" and sk = working_sklearn
              and fs = Map.empty,
            THEN conjunct2, THEN conjunct2, THEN conjunct2] r example_split[of 56]
    by simp
  from a b b2 c d show ?thesis by (intro conjI)
qed

subsection \<open>Leakage of test rows into the fitted state\<close>

lemma example_age: "column (example_X a) ''age'' = [Some 63, Some 37, Some 41, Some a]"
  by (simp add: example_X_def column_def cell_at_def)

lemma example_sex: "column (example_X a) ''sex'' = [Some 1, Some 1, Some 0, Some 1]"
  by (simp add: example_X_def column_def cell_at_def)

lemma fitted_age_median:
  assumes "fit HeartDiseasePreprocessor (example_X a) = Inr p"
  shows "map_option imputer_median (hd (numerical (the (pipeline p)))) = Some (median [63, 37, 41, a])"
  using fit_Inr(3)[OF assms]
  by (simp add: HeartDiseasePreprocessor_def example_age fit_numerical_def observed_simps Let_def)

lemma median_56: "median [63, 37, 41, 56] = 97 / 2"
  by (simp add: median_def)

lemma median_57: "median [63, 37, 41, 57] = 49"
  by (simp add: median_def)

lemma fitted_sex_mode: "fit_categorical (column (example_X a) ''sex'') = Some 1"
  by (simp add: example_sex fit_categorical_def observed_simps most_frequent_def)

text \<open>
  Claim C1, as stated, fails. Two data files agree on the rows of the training
  partition and differ only in the age of a subject of the test partition; both runs
  succeed, and they end with different fitted preprocessors.
\<close>

theorem fit_sees_test_rows_counterexample:
  "split_positions working_sklearn [Some 1, Some 0, Some 1, Some 0] = Inr ([0, 1], [2, 3])
   \<and> take_positions [0, 1] (rows (clean_data (example_df 56)))
       = take_positions [0, 1] (rows (clean_data (example_df 57)))
   \<and> outcome (main working_sklearn (example_csv 56) Map.empty) = Inr True
   \<and> outcome (main working_sklearn (example_csv 57) Map.empty) = Inr True
   \<and> run_preprocessor (main working_sklearn (example_csv 56) Map.empty)
       \<noteq> run_preprocessor (main working_sklearn (example_csv 57) Map.empty)"
proof -
  obtain p where p: "fit HeartDiseasePreprocessor (example_X 56) = Inr p"
    using example_fit by blast
  obtain q where q: "fit HeartDiseasePreprocessor (example_X 57) = Inr q"
    using example_fit by blast
  have "map_option imputer_median (hd (numerical (the (pipeline p))))
        \<noteq> map_option imputer_median (hd (numerical (the (pipeline q))))"
    by (simp add: fitted_age_median[OF p] fitted_age_median[OF q] median_56 median_57)
  then have ne: "p \<noteq> q" by auto
  have a: "split_positions working_sklearn [Some 1, Some 0, Some 1, Some 0] = Inr ([0, 1], [2, 3])"
    by (simp add: working_sklearn_def stub_sklearn_def)
  have b: "take_positions [0, 1] (rows (clean_data (example_df 56)))
           = take_positions [0, 1] (rows (clean_data (example_df 57)))"
    by (simp add: example_clean take_positions_def) (simp add: example_df_def)
  show ?thesis
    using a b ne by (simp add: example_run[OF p] example_run[OF q])
qed

text \<open>
  Claim C1, amended. \<^verbatim>\<open>main\<close> applies \<open>fit\<close> to the whole cleaned feature table before the
  table is split, so the fitted state is what \<open>fit\<close> learns from all cleaned rows, the rows
  of the later test partition included. It depends on nothing else: two runs whose
  cleaned feature tables are equal end with the same preprocessor, whatever their
  targets, estimators, split and files are.
\<close>

theorem main_fits_before_split:
  assumes "read_a raw_data_path = Inr df_a"
    and "split_features_target (clean_data df_a) ''target'' = Inr (X, y_a)"
    and "read_b raw_data_path = Inr df_b"
    and "split_features_target (clean_data df_b) ''target'' = Inr (X, y_b)"
  shows "run_preprocessor (main sk_a read_a fs_a) = snd (fit_transform HeartDiseasePreprocessor X)
    \<and> run_preprocessor (main sk_a read_a fs_a) = run_preprocessor (main sk_b read_b fs_b)
    \<and> (\<forall>p. fit HeartDiseasePreprocessor X = Inr p \<longrightarrow> run_preprocessor (main sk_a read_a fs_a) = p)"
proof -
  have a: "run_preprocessor (main sk_a read_a fs_a) = snd (fit_transform HeartDiseasePreprocessor X)"
    by (rule main_preprocessor[where read_csv = read_a, OF assms(1,2)])
  have b: "run_preprocessor (main sk_b read_b fs_b) = snd (fit_transform HeartDiseasePreprocessor X)"
    by (rule main_preprocessor[where read_csv = read_b, OF assms(3,4)])
  have c: "fit HeartDiseasePreprocessor X = Inr p
           \<Longrightarrow> snd (fit_transform HeartDiseasePreprocessor X) = p" for p
    by (simp add: fit_transform_def)
  from a b c show ?thesis by simp
qed

theorem main_fits_before_split_witness:
  "run_preprocessor (main working_sklearn (example_csv 56) Map.empty)
   = run_preprocessor (main lr_failing_sklearn (example_csv 56) Map.empty)
   \<and> (\<exists>p. fit HeartDiseasePreprocessor (example_X 56) = Inr p
          \<and> run_preprocessor (main working_sklearn (example_csv 56) Map.empty) = p)"
proof -
  have r: "example_csv 56 raw_data_path = Inr (example_df 56)" by (simp add: example_csv_def)
  note t = main_fits_before_split[where read_a = "example_csv 56" and read_b = "example_csv 56"
             and sk_a = working_sklearn and sk_b = lr_failing_sklearn
             and fs_a = Map.empty and fs_b = Map.empty,
             OF r example_split r example_split]
  obtain p where p: "fit HeartDiseasePreprocessor (example_X 56) = Inr p"
    using example_fit by blast
  from t p show ?thesis by blast
qed

subsection \<open>Failure of a model's training\<close>

text \<open>
  Claim C2, as stated, fails. Fitting the logistic regression raises; the random forest
  is the one that trains in the successful run on the same data, yet the run fails,
  and no result is recorded.
\<close>

theorem training_failure_aborts_run_counterexample:
  "outcome (main lr_failing_sklearn (example_csv 56) Map.empty) = Inl ModelTrainingFailure
   \<and> results (run_trainer (main lr_failing_sklearn (example_csv 56) Map.empty)) = []
   \<and> RandomForestClassifier_fit lr_failing_sklearn = RandomForestClassifier_fit working_sklearn
   \<and> outcome (main working_sklearn (example_csv 56) Map.empty) = Inr True
   \<and> map fst (results (run_trainer (main working_sklearn (example_csv 56) Map.empty)))
       = [''logistic_regression'', ''random_forest'']"
proof -
  obtain p where p: "fit HeartDiseasePreprocessor (example_X 56) = Inr p"
    using example_fit by blast
  have "RandomForestClassifier_fit lr_failing_sklearn = RandomForestClassifier_fit working_sklearn"
    by (simp add: lr_failing_sklearn_def working_sklearn_def stub_sklearn_def)
  then show ?thesis
    by (simp add: example_run[OF p] example_run_lr_fails[OF p] new_trainer_def both_trainer_def)
qed

text \<open>
  Claim C2, amended. Once the data is prepared, a failure of the logistic regression's
  training ends the run with that exception and an empty trainer (the random forest is
  not trained); a failure of the random forest's training ends the run with that
  exception, the trainer holding the logistic regression's result only; and a run
  succeeds only if both models were trained and recorded.
\<close>

theorem training_failure_aborts_run:
  assumes "read_csv raw_data_path = Inr df"
    and "split_features_target (clean_data df) ''target'' = Inr (X, y)"
    and "fit_transform HeartDiseasePreprocessor X = (Inr Xt, pre)"
    and "train_test_split sk Xt y = Inr (X_train, X_test, y_train, y_test)"
  shows "(train_logistic_regression sk new_trainer X_train y_train X_test y_test = Inl e
            \<longrightarrow> outcome (main sk read_csv fs) = Inl e
                \<and> run_trainer (main sk read_csv fs) = new_trainer)
    \<and> (train_logistic_regression sk new_trainer X_train y_train X_test y_test = Inr (m, ms, t)
          \<and> train_random_forest sk t X_train y_train X_test y_test = Inl e
            \<longrightarrow> outcome (main sk read_csv fs) = Inl e \<and> run_trainer (main sk read_csv fs) = t)
    \<and> (outcome (main sk read_csv fs) = Inr True
            \<longrightarrow> (\<exists>m1 ms1 t1 m2 ms2 t2.
                   train_logistic_regression sk new_trainer X_train y_train X_test y_test
                     = Inr (m1, ms1, t1)
                   \<and> train_random_forest sk t1 X_train y_train X_test y_test = Inr (m2, ms2, t2)
                   \<and> run_trainer (main sk read_csv fs) = t2))"
proof (intro conjI impI)
  assume lr: "train_logistic_regression sk new_trainer X_train y_train X_test y_test = Inl e"
  note r = main_lr_failure[where read_csv = read_csv and fs = fs, OF assms lr]
  show "outcome (main sk read_csv fs) = Inl e" by (simp add: r)
  show "run_trainer (main sk read_csv fs) = new_trainer" by (simp add: r)
next
  assume a: "train_logistic_regression sk new_trainer X_train y_train X_test y_test = Inr (m, ms, t)
             \<and> train_random_forest sk t X_train y_train X_test y_test = Inl e"
  note r = main_rf_failure[where read_csv = read_csv and fs = fs, OF assms a[THEN conjunct1]
             a[THEN conjunct2]]
  show "outcome (main sk read_csv fs) = Inl e" by (simp add: r)
  show "run_trainer (main sk read_csv fs) = t" by (simp add: r)
next
  assume "outcome (main sk read_csv fs) = Inr True"
  then show "\<exists>m1 ms1 t1 m2 ms2 t2.
               train_logistic_regression sk new_trainer X_train y_train X_test y_test
                 = Inr (m1, ms1, t1)
               \<and> train_random_forest sk t1 X_train y_train X_test y_test = Inr (m2, ms2, t2)
               \<and> run_trainer (main sk read_csv fs) = t2"
    by (rule main_success_trained[where read_csv = read_csv, OF assms])
qed

theorem training_failure_aborts_run_witness:
  "outcome (main lr_failing_sklearn (example_csv 56) Map.empty) = Inl ModelTrainingFailure
   \<and> run_trainer (main lr_failing_sklearn (example_csv 56) Map.empty) = new_trainer
   \<and> outcome (main rf_failing_sklearn (example_csv 56) Map.empty) = Inl ModelTrainingFailure
   \<and> run_trainer (main rf_failing_sklearn (example_csv 56) Map.empty) = lr_trainer
   \<and> run_trainer (main working_sklearn (example_csv 56) Map.empty) = both_trainer"
proof -
  obtain p where p: "fit HeartDiseasePreprocessor (example_X 56) = Inr p"
    using example_fit by blast
  have r: "example_csv 56 raw_data_path = Inr (example_df 56)" by (simp add: example_csv_def)
  have one: "outcome (main lr_failing_sklearn (example_csv 56) Map.empty) = Inl ModelTrainingFailure
             \<and> run_trainer (main lr_failing_sklearn (example_csv 56) Map.empty) = new_trainer"
  proof -
    from example_prepared[OF p, of "\<lambda>X y. Inl ModelTrainingFailure" "\<lambda>X y. Inr 2"]
    obtain Xt X_train X_test where
      ft: "fit_transform HeartDiseasePreprocessor (example_X 56) = (Inr Xt, p)"
      and sp: "train_test_split lr_failing_sklearn Xt [Some 1, Some 0, Some 1, Some 0]
               = Inr (X_train, X_test, [Some 1, Some 0], [Some 1, Some 0])"
      unfolding lr_failing_sklearn_def by blast
    have lr: "train_logistic_regression lr_failing_sklearn new_trainer X_train [Some 1, Some 0]
                X_test [Some 1, Some 0] = Inl ModelTrainingFailure"
      unfolding lr_failing_sklearn_def by (rule stub_train_lr_fails)
    from training_failure_aborts_run[where read_csv = "example_csv 56" and fs = Map.empty,
           OF r example_split ft sp, THEN conjunct1, rule_format, OF lr]
    show ?thesis .
  qed
  have two: "outcome (main rf_failing_sklearn (example_csv 56) Map.empty) = Inl ModelTrainingFailure
             \<and> run_trainer (main rf_failing_sklearn (example_csv 56) Map.empty) = lr_trainer"
  proof -
    from example_prepared[OF p, of "\<lambda>X y. Inr 1" "\<lambda>X y. Inl ModelTrainingFailure"]
    obtain Xt X_train X_test r1 r2 where
      ft: "fit_transform HeartDiseasePreprocessor (example_X 56) = (Inr Xt, p)"
      and sp: "train_test_split rf_failing_sklearn Xt [Some 1, Some 0, Some 1, Some 0]
               = Inr (X_train, X_test, [Some 1, Some 0], [Some 1, Some 0])"
      and te: "rows X_test = [r1, r2]"
      unfolding rf_failing_sklearn_def by blast
    have lr: "train_logistic_regression rf_failing_sklearn new_trainer X_train [Some 1, Some 0]
                X_test [Some 1, Some 0] = Inr (1, lr_metrics, lr_trainer)"
      unfolding rf_failing_sklearn_def by (rule stub_train_lr[OF te])
    have rf: "train_random_forest rf_failing_sklearn lr_trainer X_train [Some 1, Some 0]
                X_test [Some 1, Some 0] = Inl ModelTrainingFailure"
      unfolding rf_failing_sklearn_def by (rule stub_train_rf_fails)
    from training_failure_aborts_run[where read_csv = "example_csv 56" and fs = Map.empty,
           OF r example_split ft sp, THEN conjunct2, THEN conjunct1, rule_format, OF conjI[OF lr rf]]
    show ?thesis .
  qed
  have three: "run_trainer (main working_sklearn (example_csv 56) Map.empty) = both_trainer"
  proof -
    from example_prepared[OF p, of "\<lambda>X y. Inr 1" "\<lambda>X y. Inr 2"]
    obtain Xt X_train X_test r1 r2 where
      ft: "fit_transform HeartDiseasePreprocessor (example_X 56) = (Inr Xt, p)"
      and sp: "train_test_split working_sklearn Xt [Some 1, Some 0, Some 1, Some 0]
               = Inr (X_train, X_test, [Some 1, Some 0], [Some 1, Some 0])"
      and te: "rows X_test = [r1, r2]"
      unfolding working_sklearn_def by blast
    have ok: "outcome (main working_sklearn (example_csv 56) Map.empty) = Inr True"
      by (simp add: example_run[OF p])
    from training_failure_aborts_run[where read_csv = "example_csv 56" and fs = Map.empty,
           OF r example_split ft sp, THEN conjunct2, THEN conjunct2, rule_format, OF ok]
    obtain m1 ms1 t1 m2 ms2 t2 where
      lr: "train_logistic_regression working_sklearn new_trainer X_train [Some 1, Some 0]
             X_test [Some 1, Some 0] = Inr (m1, ms1, t1)"
      and rf: "train_random_forest working_sklearn t1 X_train [Some 1, Some 0]
             X_test [Some 1, Some 0] = Inr (m2, ms2, t2)"
      and t2: "run_trainer (main working_sklearn (example_csv 56) Map.empty) = t2"
      by blast
    have "t1 = lr_trainer"
      using lr stub_train_lr[OF te, of "\<lambda>X y. Inr 2" X_train "[Some 1, Some 0]"]
      by (simp add: working_sklearn_def)
    then have "t2 = both_trainer"
      using rf stub_train_rf[OF te, of "\<lambda>X y. Inr 1" X_train "[Some 1, Some 0]"]
      by (simp add: working_sklearn_def)
    with t2 show ?thesis by simp
  qed
  from one two three show ?thesis by simp
qed

subsection \<open>Missing values are closed by transform\<close>

lemma transform_cells:
  assumes "fit p0 X = Inr p" and "transform p Y = Inr out"
  shows "columns out = numerical_features p0 @ categorical_features p0
    \<and> length (rows out) = length (rows Y)
    \<and> (\<forall>r\<in>set (rows out). None \<notin> set r)
    \<and> (\<forall>i<length (rows Y). \<forall>j<length (numerical_features p0).
         \<exists>q. fit_numerical (column X (numerical_features p0 ! j)) = Some q
           \<and> rows out ! i ! j
             = Some (case cell_at (columns Y) (rows Y ! i) (numerical_features p0 ! j) of
                       None \<Rightarrow> if scaler_std q = 0 then 0
                               else (imputer_median q - scaler_mean q) / scaler_std q
                     | Some v \<Rightarrow> (v - scaler_mean q) / scaler_scale q))
    \<and> (\<forall>i<length (rows Y). \<forall>j<length (categorical_features p0).
         \<exists>m. fit_categorical (column X (categorical_features p0 ! j)) = Some m
           \<and> rows out ! i ! (length (numerical_features p0) + j)
             = Some (case cell_at (columns Y) (rows Y ! i) (categorical_features p0 ! j) of
                       None \<Rightarrow> m
                     | Some v \<Rightarrow> v))"
proof -
  define f where "f = \<lparr>numerical = map (\<lambda>n. fit_numerical (column X n)) (numerical_features p0),
                        categorical = map (\<lambda>n. fit_categorical (column X n)) (categorical_features p0)\<rparr>"
  note fi = fit_Inr[OF assms(1)]
  have pf: "pipeline p = Some f" using fi(3) by (simp add: f_def)
  note tr = transform_Inr[OF assms(2) pf]
  have ln: "length (numerical f) = length (numerical_features p)"
    and lc: "length (categorical f) = length (categorical_features p)"
    by (simp_all add: f_def fi)
  from tr(1) obtain r0 where r0: "r0 \<in> set (rows Y)" by (cases "rows Y") auto
  have full: "None \<notin> set (numerical f)" "None \<notin> set (categorical f)"
    using transform_row_complete[OF ln lc] tr(4) r0 by blast+
  have row: "transform_row p f (columns Y) r
         = map (\<lambda>(n, st). Some (transform_numerical (the st) (cell_at (columns Y) r n)))
             (zip (numerical_features p) (numerical f))
           @ map (\<lambda>(n, st). Some (impute (the st) (cell_at (columns Y) r n)))
               (zip (categorical_features p) (categorical f))" for r
    by (rule transform_row_eq[OF ln lc full])
  have c1: "columns out = numerical_features p0 @ categorical_features p0"
    using tr(2) fi by simp
  have c2: "length (rows out) = length (rows Y)" using tr(3) by simp
  have c3: "\<forall>r\<in>set (rows out). None \<notin> set r"
    by (auto simp: tr(3) row)
  have c4: "\<exists>q. fit_numerical (column X (numerical_features p0 ! j)) = Some q
           \<and> rows out ! i ! j
             = Some (case cell_at (columns Y) (rows Y ! i) (numerical_features p0 ! j) of
                       None \<Rightarrow> if scaler_std q = 0 then 0
                               else (imputer_median q - scaler_mean q) / scaler_std q
                     | Some v \<Rightarrow> (v - scaler_mean q) / scaler_scale q)"
    if i: "i < length (rows Y)" and j: "j < length (numerical_features p0)" for i j
  proof -
    have "numerical f ! j \<noteq> None" using full(1) j ln fi by (metis nth_mem)
    then obtain q where q: "numerical f ! j = Some q" by auto
    have fq: "fit_numerical (column X (numerical_features p0 ! j)) = Some q"
      using q j by (simp add: f_def)
    have "rows out ! i ! j
          = Some (transform_numerical q (cell_at (columns Y) (rows Y ! i) (numerical_features p0 ! j)))"
      using i j q ln fi by (simp add: tr(3) row nth_append)
    also have "transform_numerical q (cell_at (columns Y) (rows Y ! i) (numerical_features p0 ! j))
          = (case cell_at (columns Y) (rows Y ! i) (numerical_features p0 ! j) of
                       None \<Rightarrow> if scaler_std q = 0 then 0
                               else (imputer_median q - scaler_mean q) / scaler_std q
                     | Some v \<Rightarrow> (v - scaler_mean q) / scaler_scale q)"
      using transform_numerical_missing[OF fq]
      by (cases "cell_at (columns Y) (rows Y ! i) (numerical_features p0 ! j)")
         (simp_all add: transform_numerical_def impute_def)
    finally show ?thesis using fq by blast
  qed
  have c5: "\<exists>m. fit_categorical (column X (categorical_features p0 ! j)) = Some m
           \<and> rows out ! i ! (length (numerical_features p0) + j)
             = Some (case cell_at (columns Y) (rows Y ! i) (categorical_features p0 ! j) of
                       None \<Rightarrow> m
                     | Some v \<Rightarrow> v)"
    if i: "i < length (rows Y)" and j: "j < length (categorical_features p0)" for i j
  proof -
    have "categorical f ! j \<noteq> None" using full(2) j lc fi by (metis nth_mem)
    then obtain m where m: "categorical f ! j = Some m" by auto
    have fm: "fit_categorical (column X (categorical_features p0 ! j)) = Some m"
      using m j by (simp add: f_def)
    have "rows out ! i ! (length (numerical_features p0) + j)
          = Some (impute m (cell_at (columns Y) (rows Y ! i) (categorical_features p0 ! j)))"
      using i j m ln lc fi by (simp add: tr(3) row nth_append)
    then show ?thesis using fm by (auto simp: impute_def)
  qed
  from c1 c2 c3 c4 c5 show ?thesis by blast
qed

lemma transform_shape:
  assumes "fit p0 X = Inr p"
    and "\<forall>n\<in>set (numerical_features p0 @ categorical_features p0). observed (column X n) \<noteq> []"
    and "set (numerical_features p0 @ categorical_features p0) \<subseteq> set (columns Y)"
    and "rows Y \<noteq> []"
  shows "\<exists>g. transform p Y
              = Inr \<lparr>columns = numerical_features p @ categorical_features p,
                     rows = map g (rows Y)\<rparr>"
proof -
  from transform_succeeds[OF assms] obtain out where out: "transform p Y = Inr out" ..
  from fit_Inr(3)[OF assms(1)] obtain f where f: "pipeline p = Some f" by simp
  from transform_Inr(2,3)[OF out f]
  have "out = \<lparr>columns = numerical_features p @ categorical_features p,
               rows = map (transform_row p f (columns Y)) (rows Y)\<rparr>"
    by simp
  with out show ?thesis by blast
qed

lemma fit_numerical_learned:
  assumes "fit_numerical col = Some q"
  shows "observed col \<noteq> []"
    and "imputer_median q = median (observed col)"
    and "scaler_mean q = mean (map (impute (median (observed col))) col)"
    and "scaler_std q = std (map (impute (median (observed col))) col)"
    and "scaler_scale q = (if std (map (impute (median (observed col))) col) = 0 then 1
                           else std (map (impute (median (observed col))) col))"
  using assms
  by (auto simp: fit_numerical_def Let_def handle_zeros_in_scale_def split: list.splits)

lemma transform_output:
  assumes "fit p0 X = Inr p" and "transform p Y = Inr out"
  shows "columns out = numerical_features p0 @ categorical_features p0
      \<and> length (rows out) = length (rows Y)
      \<and> (\<forall>r\<in>set (rows out). None \<notin> set r)
      \<and> (\<forall>i<length (rows Y). \<forall>j<length (numerical_features p0).
           (let col = column X (numerical_features p0 ! j);
                learned_median = median (observed col);
                imputed = map (impute learned_median) col
            in observed col \<noteq> []
               \<and> rows out ! i ! j
                 = Some (case cell_at (columns Y) (rows Y ! i) (numerical_features p0 ! j) of
                           None \<Rightarrow> if std imputed = 0 then 0
                                   else (learned_median - mean imputed) / std imputed
                         | Some v \<Rightarrow> if std imputed = 0 then v - mean imputed
                                     else (v - mean imputed) / std imputed)))
      \<and> (\<forall>i<length (rows Y). \<forall>j<length (categorical_features p0).
           \<exists>m. most_frequent (observed (column X (categorical_features p0 ! j))) = Some m
             \<and> rows out ! i ! (length (numerical_features p0) + j)
               = Some (case cell_at (columns Y) (rows Y ! i) (categorical_features p0 ! j) of
                         None \<Rightarrow> m
                       | Some v \<Rightarrow> v))"
proof -
  note c = transform_cells[OF assms]
  have num: "let col = column X (numerical_features p0 ! j);
                learned_median = median (observed col);
                imputed = map (impute learned_median) col
            in observed col \<noteq> []
               \<and> rows out ! i ! j
                 = Some (case cell_at (columns Y) (rows Y ! i) (numerical_features p0 ! j) of
                           None \<Rightarrow> if std imputed = 0 then 0
                                   else (learned_median - mean imputed) / std imputed
                         | Some v \<Rightarrow> if std imputed = 0 then v - mean imputed
                                     else (v - mean imputed) / std imputed)"
    if i: "i < length (rows Y)" and j: "j < length (numerical_features p0)" for i j
  proof -
    from c[THEN conjunct2, THEN conjunct2, THEN conjunct2, THEN conjunct1, rule_format, OF i j]
    obtain q where fq: "fit_numerical (column X (numerical_features p0 ! j)) = Some q"
      and cell: "rows out ! i ! j
             = Some (case cell_at (columns Y) (rows Y ! i) (numerical_features p0 ! j) of
                       None \<Rightarrow> if scaler_std q = 0 then 0
                               else (imputer_median q - scaler_mean q) / scaler_std q
                     | Some v \<Rightarrow> (v - scaler_mean q) / scaler_scale q)"
      by blast
    note L = fit_numerical_learned[OF fq]
    show ?thesis
      unfolding Let_def
      by (cases "cell_at (columns Y) (rows Y ! i) (numerical_features p0 ! j)")
         (simp_all add: cell L)
  qed
  have cat: "\<exists>m. most_frequent (observed (column X (categorical_features p0 ! j))) = Some m
             \<and> rows out ! i ! (length (numerical_features p0) + j)
               = Some (case cell_at (columns Y) (rows Y ! i) (categorical_features p0 ! j) of
                         None \<Rightarrow> m
                       | Some v \<Rightarrow> v)"
    if i: "i < length (rows Y)" and j: "j < length (categorical_features p0)" for i j
    using c[THEN conjunct2, THEN conjunct2, THEN conjunct2, THEN conjunct2, rule_format, OF i j]
    by (simp add: fit_categorical_def)
  from c[THEN conjunct1] c[THEN conjunct2, THEN conjunct1]
       c[THEN conjunct2, THEN conjunct2, THEN conjunct1] num cat
  show ?thesis by (intro conjI allI impI)
qed

text \<open>
  Claim C7. For a preprocessor fitted on \<open>X\<close> and any batch \<open>Y\<close>, the output of
  \<open>transform\<close>, when it returns one, has the feature columns, one row per row of \<open>Y\<close>, and
  no missing cell. For a numerical feature, the learned median is the median of the
  observed values of the feature's column of \<open>X\<close>, and the learned mean and standard
  deviation are those of that column after its missing cells are filled with the median.
  A missing numerical cell becomes \<open>(median - mean) / std\<close>, and 0 when the standard
  deviation is zero; a present one becomes \<open>(v - mean) / std\<close>, and \<open>v - mean\<close> when the
  standard deviation is zero. A missing categorical cell becomes the learned mode, which
  is the most frequent observed value of the feature's column of \<open>X\<close>, and a present one
  is passed through. \<open>transform\<close> does return an output when every feature had an
  observed value in \<open>X\<close>, \<open>Y\<close> has the feature columns and \<open>Y\<close> has a row.
\<close>

theorem transform_closes_missing_values:
  assumes "fit p0 X = Inr p"
  shows "(transform p Y = Inr out \<longrightarrow>
      columns out = numerical_features p0 @ categorical_features p0
      \<and> length (rows out) = length (rows Y)
      \<and> (\<forall>r\<in>set (rows out). None \<notin> set r)
      \<and> (\<forall>i<length (rows Y). \<forall>j<length (numerical_features p0).
           (let col = column X (numerical_features p0 ! j);
                learned_median = median (observed col);
                imputed = map (impute learned_median) col
            in observed col \<noteq> []
               \<and> rows out ! i ! j
                 = Some (case cell_at (columns Y) (rows Y ! i) (numerical_features p0 ! j) of
                           None \<Rightarrow> if std imputed = 0 then 0
                                   else (learned_median - mean imputed) / std imputed
                         | Some v \<Rightarrow> if std imputed = 0 then v - mean imputed
                                     else (v - mean imputed) / std imputed)))
      \<and> (\<forall>i<length (rows Y). \<forall>j<length (categorical_features p0).
           \<exists>m. most_frequent (observed (column X (categorical_features p0 ! j))) = Some m
             \<and> rows out ! i ! (length (numerical_features p0) + j)
               = Some (case cell_at (columns Y) (rows Y ! i) (categorical_features p0 ! j) of
                         None \<Rightarrow> m
                       | Some v \<Rightarrow> v)))
    \<and> ((\<forall>n\<in>set (numerical_features p0 @ categorical_features p0). observed (column X n) \<noteq> [])
        \<and> set (numerical_features p0 @ categorical_features p0) \<subseteq> set (columns Y)
        \<and> rows Y \<noteq> []
        \<longrightarrow> (\<exists>res. transform p Y = Inr res))"
proof (rule conjI)
  show "transform p Y = Inr out \<longrightarrow>
      columns out = numerical_features p0 @ categorical_features p0
      \<and> length (rows out) = length (rows Y)
      \<and> (\<forall>r\<in>set (rows out). None \<notin> set r)
      \<and> (\<forall>i<length (rows Y). \<forall>j<length (numerical_features p0).
           (let col = column X (numerical_features p0 ! j);
                learned_median = median (observed col);
                imputed = map (impute learned_median) col
            in observed col \<noteq> []
               \<and> rows out ! i ! j
                 = Some (case cell_at (columns Y) (rows Y ! i) (numerical_features p0 ! j) of
                           None \<Rightarrow> if std imputed = 0 then 0
                                   else (learned_median - mean imputed) / std imputed
                         | Some v \<Rightarrow> if std imputed = 0 then v - mean imputed
                                     else (v - mean imputed) / std imputed)))
      \<and> (\<forall>i<length (rows Y). \<forall>j<length (categorical_features p0).
           \<exists>m. most_frequent (observed (column X (categorical_features p0 ! j))) = Some m
             \<and> rows out ! i ! (length (numerical_features p0) + j)
               = Some (case cell_at (columns Y) (rows Y ! i) (categorical_features p0 ! j) of
                         None \<Rightarrow> m
                       | Some v \<Rightarrow> v))"
  proof (rule impI)
    assume "transform p Y = Inr out"
    then show "columns out = numerical_features p0 @ categorical_features p0
      \<and> length (rows out) = length (rows Y)
      \<and> (\<forall>r\<in>set (rows out). None \<notin> set r)
      \<and> (\<forall>i<length (rows Y). \<forall>j<length (numerical_features p0).
           (let col = column X (numerical_features p0 ! j);
                learned_median = median (observed col);
                imputed = map (impute learned_median) col
            in observed col \<noteq> []
               \<and> rows out ! i ! j
                 = Some (case cell_at (columns Y) (rows Y ! i) (numerical_features p0 ! j) of
                           None \<Rightarrow> if std imputed = 0 then 0
                                   else (learned_median - mean imputed) / std imputed
                         | Some v \<Rightarrow> if std imputed = 0 then v - mean imputed
                                     else (v - mean imputed) / std imputed)))
      \<and> (\<forall>i<length (rows Y). \<forall>j<length (categorical_features p0).
           \<exists>m. most_frequent (observed (column X (categorical_features p0 ! j))) = Some m
             \<and> rows out ! i ! (length (numerical_features p0) + j)
               = Some (case cell_at (columns Y) (rows Y ! i) (categorical_features p0 ! j) of
                         None \<Rightarrow> m
                       | Some v \<Rightarrow> v))"
      by (rule transform_output[OF assms])
  qed
next
  show "(\<forall>n\<in>set (numerical_features p0 @ categorical_features p0). observed (column X n) \<noteq> [])
        \<and> set (numerical_features p0 @ categorical_features p0) \<subseteq> set (columns Y)
        \<and> rows Y \<noteq> []
        \<longrightarrow> (\<exists>res. transform p Y = Inr res)"
  proof (rule impI)
    assume a: "(\<forall>n\<in>set (numerical_features p0 @ categorical_features p0). observed (column X n) \<noteq> [])
        \<and> set (numerical_features p0 @ categorical_features p0) \<subseteq> set (columns Y)
        \<and> rows Y \<noteq> []"
    show "\<exists>res. transform p Y = Inr res"
      by (rule transform_succeeds[OF assms a[THEN conjunct1] a[THEN conjunct2, THEN conjunct1]
            a[THEN conjunct2, THEN conjunct2]])
  qed
qed

lemma example_batch_ok:
  "set (numerical_features HeartDiseasePreprocessor @ categorical_features HeartDiseasePreprocessor)
     \<subseteq> set (columns example_batch)"
  "rows example_batch \<noteq> []"
  unfolding example_columns by (simp_all add: example_batch_def)

lemma example_age_statistics:
  "mean [63, 37, 41, 56] = 197 / 4"
  "std [63, 37, 41, 56] = sqrt (1811 / 16)"
  by (simp_all add: mean_def std_def variance_def power2_eq_square)

text \<open>
  The theorem at the preprocessor fitted on the example and a batch of two rows, the
  first without its age and its sex. The ages of the example are 63, 37, 41 and 56, with
  median 97/2, mean 197/4 and variance 1811/16; the most frequent sex is 1.
\<close>

theorem transform_closes_missing_values_witness:
  "\<exists>p out. fit HeartDiseasePreprocessor (example_X 56) = Inr p
     \<and> transform p example_batch = Inr out
     \<and> cell_at (columns example_batch) (rows example_batch ! 0) ''age'' = None
     \<and> cell_at (columns example_batch) (rows example_batch ! 1) ''age'' = Some 57
     \<and> cell_at (columns example_batch) (rows example_batch ! 0) ''sex'' = None
     \<and> length (rows out) = 2
     \<and> list_all (\<lambda>r. None \<notin> set r) (rows out)
     \<and> rows out ! 0 ! 0 = Some ((97 / 2 - 197 / 4) / sqrt (1811 / 16))
     \<and> rows out ! 1 ! 0 = Some ((57 - 197 / 4) / sqrt (1811 / 16))
     \<and> rows out ! 0 ! 5 = Some 1"
proof -
  obtain p where p: "fit HeartDiseasePreprocessor (example_X 56) = Inr p"
    using example_fit by blast
  note t = transform_closes_missing_values[OF p, where Y = example_batch]
  have pre: "(\<forall>n\<in>set (numerical_features HeartDiseasePreprocessor
                         @ categorical_features HeartDiseasePreprocessor).
                observed (column (example_X 56) n) \<noteq> [])
             \<and> set (numerical_features HeartDiseasePreprocessor
                     @ categorical_features HeartDiseasePreprocessor)
                 \<subseteq> set (columns example_batch)
             \<and> rows example_batch \<noteq> []"
    using example_observed[of 56] example_batch_ok by simp
  from t[THEN conjunct2, rule_format, OF pre] obtain out where
    out: "transform p example_batch = Inr out" ..
  note o = t[where out = out, THEN conjunct1, rule_format, OF out]
  have len: "length (rows out) = 2"
    using o[THEN conjunct2, THEN conjunct1] by (simp add: example_batch_def)
  have nomiss: "list_all (\<lambda>r. None \<notin> set r) (rows out)"
    using o[THEN conjunct2, THEN conjunct2, THEN conjunct1] by (simp add: list_all_iff)
  have miss_age: "cell_at (columns example_batch) (rows example_batch ! 0) ''age'' = None"
    by (simp add: example_batch_def cell_at_def)
  have age1: "cell_at (columns example_batch) (rows example_batch ! 1) ''age'' = Some 57"
    by (simp add: example_batch_def cell_at_def)
  have age1': "cell_at (columns example_batch) (rows example_batch ! Suc 0) ''age'' = Some 57"
    by (simp add: example_batch_def cell_at_def)
  have miss: "cell_at (columns example_batch) (rows example_batch ! 0) ''sex'' = None"
    by (simp add: example_batch_def cell_at_def)
  have i0: "0 < length (rows example_batch)" and i1: "1 < length (rows example_batch)"
    by (simp_all add: example_batch_def)
  have jn: "0 < length (numerical_features HeartDiseasePreprocessor)"
    and j0: "0 < length (categorical_features HeartDiseasePreprocessor)"
    by (simp_all add: HeartDiseasePreprocessor_def)
  have agename: "numerical_features HeartDiseasePreprocessor ! 0 = ''age''"
    by (simp add: HeartDiseasePreprocessor_def)
  note num = o[THEN conjunct2, THEN conjunct2, THEN conjunct2, THEN conjunct1, rule_format]
  have cell00: "rows out ! 0 ! 0 = Some ((97 / 2 - 197 / 4) / sqrt (1811 / 16))"
    using num[OF i0 jn]
    by (simp add: Let_def agename example_age observed_simps median_56 impute_def
          example_age_statistics miss_age)
  have cell10: "rows out ! 1 ! 0 = Some ((57 - 197 / 4) / sqrt (1811 / 16))"
    using num[OF i1 jn]
    by (simp add: Let_def agename example_age observed_simps median_56 impute_def
          example_age_statistics age1')
  note cat = o[THEN conjunct2, THEN conjunct2, THEN conjunct2, THEN conjunct2, rule_format]
  from cat[OF i0 j0] obtain m where
    m: "most_frequent (observed (column (example_X 56)
          (categorical_features HeartDiseasePreprocessor ! 0))) = Some m"
    and c: "rows out ! 0 ! (length (numerical_features HeartDiseasePreprocessor) + 0)
            = Some (case cell_at (columns example_batch) (rows example_batch ! 0)
                           (categorical_features HeartDiseasePreprocessor ! 0) of
                      None \<Rightarrow> m | Some v \<Rightarrow> v)"
    by blast
  have sexname: "categorical_features HeartDiseasePreprocessor ! 0 = ''sex''"
    by (simp add: HeartDiseasePreprocessor_def)
  have five: "length (numerical_features HeartDiseasePreprocessor) + 0 = 5"
    by (simp add: HeartDiseasePreprocessor_def)
  have "m = 1" using m fitted_sex_mode[of 56] by (simp add: sexname fit_categorical_def)
  then have cell: "rows out ! 0 ! 5 = Some 1"
    using c by (simp only: sexname five miss option.case)
  from p out miss_age age1 miss len nomiss cell00 cell10 cell show ?thesis by blast
qed

subsection \<open>Risk bands\<close>

text \<open>
  Claim C9. The risk band is \<open>Low\<close> below 0.3, \<open>Medium\<close> from 0.3 up to but not including
  0.7, and \<open>High\<close> from 0.7 on; so 0.29 is \<open>Low\<close>, 0.30 and 0.69 are \<open>Medium\<close> and 0.70 is
  \<open>High\<close>. The band of every response of \<open>predict\<close> is this function of the response's
  probability, and of nothing else.
\<close>

theorem risk_level_bands:
  "(p < 0.3 \<longrightarrow> risk_level p = ''Low'')
   \<and> (0.3 \<le> p \<and> p < 0.7 \<longrightarrow> risk_level p = ''Medium'')
   \<and> (0.7 \<le> p \<longrightarrow> risk_level p = ''High'')
   \<and> risk_level 0.29 = ''Low'' \<and> risk_level 0.30 = ''Medium''
   \<and> risk_level 0.69 = ''Medium'' \<and> risk_level 0.70 = ''High''
   \<and> (predict sk str_of now a input_data = Inr response
        \<longrightarrow> response_risk_level response = risk_level (probability response))"
  by (auto simp: risk_level_def predict_def predict_try_def
      split: sum.splits option.splits list.splits prod.splits)

theorem risk_level_bands_witness:
  "risk_level 0.1 = ''Low'' \<and> risk_level 0.5 = ''Medium'' \<and> risk_level 0.9 = ''High''
   \<and> (\<exists>response.
         predict working_sklearn example_str ''2026-11-04T09:00:00''
           (startup (run_files (main working_sklearn (example_csv 56) Map.empty))) example_input
         = Inr response
         \<and> probability response = 0.9
         \<and> response_risk_level response = ''High'')"
proof -
  have low: "risk_level 0.1 = ''Low''"
    using risk_level_bands[of "0.1", THEN conjunct1] by simp
  have medium: "risk_level 0.5 = ''Medium''"
    using risk_level_bands[of "0.5", THEN conjunct2, THEN conjunct1] by simp
  have high: "risk_level 0.9 = ''High''"
    using risk_level_bands[of "0.9", THEN conjunct2, THEN conjunct2, THEN conjunct1] by simp
  obtain p where p: "fit HeartDiseasePreprocessor (example_X 56) = Inr p"
    using example_fit by blast
  let ?app = "startup (run_files (main working_sklearn (example_csv 56) Map.empty))"
  have app: "?app = \<lparr>app_model = Some (ModelArtifact 1),
                        app_preprocessor = Some (PreprocessorArtifact p)\<rparr>"
    by (simp add: example_run[OF p] startup_def joblib_load_def save_model_def save_def
          joblib_dump_def model_path_def preprocessor_path_def)
  have cols: "set (numerical_features HeartDiseasePreprocessor
                   @ categorical_features HeartDiseasePreprocessor)
              \<subseteq> set (columns (input_frame example_input))"
    unfolding example_columns by (simp add: input_frame_def)
  have ne: "rows (input_frame example_input) \<noteq> []" by (simp add: input_frame_def)
  from transform_shape[OF p example_observed cols ne] obtain g where
    g: "transform p (input_frame example_input)
        = Inr \<lparr>columns = numerical_features p @ categorical_features p,
               rows = map g (rows (input_frame example_input))\<rparr>" ..
  have one: "\<exists>r. rows (input_frame example_input) = [r]" by (simp add: input_frame_def)
  then obtain r where r: "rows (input_frame example_input) = [r]" ..
  let ?response = "\<lparr>prediction = 1, probability = 0.9, response_risk_level = risk_level 0.9,
                     message = ''Heart disease detected'',
                     timestamp = ''2026-11-04T09:00:00''\<rparr>"
  have pr: "predict working_sklearn example_str ''2026-11-04T09:00:00'' ?app example_input
            = Inr ?response"
    by (subst app)
       (simp add: predict_def predict_try_def artifact_transform_def artifact_predict_def
          artifact_predict_proba_def g r working_sklearn_def stub_sklearn_def)
  from risk_level_bands[where sk = working_sklearn and str_of = example_str
         and now = "''2026-11-04T09:00:00''" and a = ?app and input_data = example_input
         and response = ?response,
         THEN conjunct2, THEN conjunct2, THEN conjunct2, THEN conjunct2, THEN conjunct2,
         THEN conjunct2, THEN conjunct2, rule_format, OF pr]
  have "response_risk_level ?response = risk_level (probability ?response)" .
  then have "response_risk_level ?response = ''High''" by (simp add: high)
  with pr low medium high show ?thesis by auto
qed

end
